theory Spec2Isabelle
  imports Main "HOL-Library.Sublist"
begin

section \<open>Python values and string operations used by the validators\<close>

text \<open>
  The module \<^verbatim>\<open>azure/cli/command_modules/network/_validators.py\<close> is a flat set of
  functions that read and mutate an argparse namespace. Python strings are modelled as
  \<^typ>\<open>string\<close> (a non-ASCII text is represented by its UTF-8 bytes), an attribute that
  may be \<^verbatim>\<open>None\<close> as an \<open>option\<close>, and bytes objects as lists of 8-bit characters.
\<close>

type_synonym bytes = "char list"

text \<open>Truthiness of \<^verbatim>\<open>None\<close>-or-string and \<^verbatim>\<open>None\<close>-or-int attributes
  (\<^verbatim>\<open>if x:\<close>, \<^verbatim>\<open>not x\<close>).\<close>

definition truthy :: "string option \<Rightarrow> bool" where
  "truthy v = (case v of None \<Rightarrow> False | Some s \<Rightarrow> s \<noteq> [])"

definition truthy_int :: "int option \<Rightarrow> bool" where
  "truthy_int v = (case v of None \<Rightarrow> False | Some n \<Rightarrow> n \<noteq> 0)"

text \<open>What \<^verbatim>\<open>'{}'.format(x)\<close> prints for a \<^verbatim>\<open>None\<close>-or-string value.\<close>

definition py_str :: "string option \<Rightarrow> string" where
  "py_str v = (case v of None \<Rightarrow> ''None'' | Some s \<Rightarrow> s)"

text \<open>\<^verbatim>\<open>sub in s\<close> on strings.\<close>

fun str_contains :: "string \<Rightarrow> string \<Rightarrow> bool" where
  "str_contains sub [] = (sub = [])"
| "str_contains sub (c # cs) = (prefix sub (c # cs) \<or> str_contains sub cs)"

text \<open>
  \<^verbatim>\<open>s.replace(old, new)\<close>: one scan from the left; each occurrence of \<open>old\<close> found
  is replaced and the scan goes on after it. For an empty \<open>old\<close> Python puts \<open>new\<close>
  before every character and at the end.
\<close>

function str_replace_scan :: "string \<Rightarrow> string \<Rightarrow> string \<Rightarrow> string" where
  "str_replace_scan old new [] = []"
| "str_replace_scan old new (c # cs) =
     (if old \<noteq> [] \<and> prefix old (c # cs)
      then new @ str_replace_scan old new (drop (length old) (c # cs))
      else c # str_replace_scan old new cs)"
  by pat_completeness auto
termination
  by (relation "measure (\<lambda>(old, new, s). length s)") (auto simp: neq_Nil_conv)

definition str_replace :: "string \<Rightarrow> string \<Rightarrow> string \<Rightarrow> string" where
  "str_replace s old new =
     (if old = [] then new @ concat (map (\<lambda>c. c # new) s)
      else str_replace_scan old new s)"

text \<open>\<^verbatim>\<open>s.split(sep)\<close> for a one-character separator.\<close>

fun split_on :: "char \<Rightarrow> string \<Rightarrow> string list" where
  "split_on sep [] = [[]]"
| "split_on sep (c # cs) =
     (if c = sep then [] # split_on sep cs
      else (case split_on sep cs of
              [] \<Rightarrow> [[c]]
            | w # ws \<Rightarrow> (c # w) # ws))"

section \<open>Errors, results and the namespace\<close>

text \<open>
  The exceptions the validators raise: \<^verbatim>\<open>CLIError(msg)\<close>,
  \<^verbatim>\<open>argparse.ArgumentError(None, msg)\<close>, the \<^verbatim>\<open>IOError\<close> of \<^verbatim>\<open>open\<close> on a
  file that cannot be read (with the path), the \<^verbatim>\<open>TypeError\<close> of a string
  function applied to a dictionary, the \<^verbatim>\<open>AttributeError\<close> of \<^verbatim>\<open>getattr\<close>
  on a name the namespace does not have, and the three exceptions of
  \<^verbatim>\<open>socket.inet_aton\<close>: \<^verbatim>\<open>socket.error\<close> for a string that is no address,
  \<^verbatim>\<open>ValueError\<close> for a string with a NUL character in it, and
  \<^verbatim>\<open>UnicodeEncodeError\<close> for a string that has no UTF-8 encoding.
\<close>

datatype error =
    CLIError string
  | ArgumentError string
  | IOError string
  | TypeError
  | AttributeError string
  | SocketError
  | ValueError
  | UnicodeEncodeError

text \<open>
  A list-valued attribute holds \<^verbatim>\<open>None\<close>, a single string or a list. The argument
  parser stores lists of strings; a validator stores back a list of one-entry
  dictionaries. A dictionary is an association list.
\<close>

type_synonym dict = "(string \<times> string) list"

datatype item = Str string | Dict dict

datatype list_arg =
    ArgNone
  | ArgStr string
  | ArgList "item list"

definition truthy_arg :: "list_arg \<Rightarrow> bool" where
  "truthy_arg raw =
     (case raw of
        ArgNone \<Rightarrow> False
      | ArgStr s \<Rightarrow> s \<noteq> []
      | ArgList xs \<Rightarrow> xs \<noteq> [])"

text \<open>
  The namespace: one record with the attributes the validators below read or write. The
  validators mutate it in place; the model passes it in and returns it.
\<close>

record namespace =
  resource_group_name :: "string option"
  load_balancer_name :: "string option"
  load_balancer_inbound_nat_rule_ids :: list_arg
  load_balancer_backend_address_pool_ids :: list_arg
  inbound_nat_rule :: "string option"
  backend_address_pool :: "string option"
  virtual_network_name :: "string option"
  subnet :: "string option"
  subnet_type :: "string option"
  subnet_address_prefix :: string
  vnet_address_prefix :: string
  public_ip_address :: "string option"
  public_ip_address_type :: "string option"
  public_ip_dns_name :: "string option"
  dns_name_type :: "string option"
  network_security_group :: "string option"
  servers :: list_arg
  cert_data :: "string option"
  cert_password :: "string option"
  http_listener_protocol :: "string option"
  frontend_port :: "int option"

text \<open>
  A validator either returns (\<open>Inr\<close> the namespace as it left it) or raises (\<open>Inl\<close>
  the exception, with the namespace as mutated up to the raise).
\<close>

type_synonym result = "(error \<times> namespace) + namespace"

definition final_ns :: "result \<Rightarrow> namespace" where
  "final_ns r = (case r of Inl (e, ns) \<Rightarrow> ns | Inr ns \<Rightarrow> ns)"

definition raised :: "result \<Rightarrow> error option" where
  "raised r = (case r of Inl (e, ns) \<Rightarrow> Some e | Inr ns \<Rightarrow> None)"

section \<open>Collaborators outside the module\<close>

text \<open>
  The module imports \<^verbatim>\<open>is_valid_resource_id\<close>, \<^verbatim>\<open>resource_id\<close> and
  \<^verbatim>\<open>get_subscription_id\<close> from other modules and opens a file. What they answer
  is a parameter of the validators that call them: the recognizer of well-formed resource
  identifiers (applied to the attribute's value, \<^verbatim>\<open>None\<close> included), the active
  subscription, and the contents of the files that can be read.
\<close>

record env =
  is_valid_resource_id :: "string option \<Rightarrow> bool"
  get_subscription_id :: string
  read_file :: "string \<Rightarrow> bytes option"

text \<open>
  Modelled from the spec: \<^verbatim>\<open>resource_id\<close> is imported from
  \<^verbatim>\<open>azure.cli.commands.arm\<close>, which is not among the sources. Section 4.1 of the
  specification gives the identifier it builds:
  \<^verbatim>\<open>/subscriptions/{sub}/resourceGroups/{rg}/providers/{namespace}/{type}/{name}\<close>,
  followed by \<^verbatim>\<open>/{childType}/{childName}\<close> when the child keywords are passed.
\<close>

definition resource_id ::
  "string \<Rightarrow> string option \<Rightarrow> string \<Rightarrow> string \<Rightarrow> string option \<Rightarrow>
   (string \<times> string option) option \<Rightarrow> string" where
  "resource_id subscription resource_group provider rtype name child =
     ''/subscriptions/'' @ subscription @ ''/resourceGroups/'' @ py_str resource_group @
     ''/providers/'' @ provider @ ''/'' @ rtype @ ''/'' @ py_str name @
     (case child of
        None \<Rightarrow> []
      | Some (child_type, child_name) \<Rightarrow> ''/'' @ child_type @ ''/'' @ py_str child_name)"

section \<open>Parameter validators\<close>

text \<open>\<^verbatim>\<open>_generate_lb_subproperty_id\<close> (lines 17-26); \<^verbatim>\<open>subscription or
  get_subscription_id()\<close> takes the session's subscription when the argument is
  \<^verbatim>\<open>None\<close> or empty.\<close>

definition generate_lb_subproperty_id ::
  "env \<Rightarrow> string option \<Rightarrow> string option \<Rightarrow> string \<Rightarrow> string option \<Rightarrow> string option \<Rightarrow> string" where
  "generate_lb_subproperty_id E resource_group lb_name child_type child_name subscription =
     resource_id
       (case subscription of
          None \<Rightarrow> get_subscription_id E
        | Some s \<Rightarrow> if s \<noteq> [] then s else get_subscription_id E)
       resource_group ''Microsoft.Network'' ''loadBalancers'' lb_name
       (Some (child_type, child_name))"

text \<open>The two list attributes \<^verbatim>\<open>getattr\<close> and \<^verbatim>\<open>setattr\<close> are called on by
  name; under any other name the namespace has no list attribute (\<open>None\<close>).\<close>

definition getattr_list :: "namespace \<Rightarrow> string \<Rightarrow> list_arg option" where
  "getattr_list ns prop =
     (if prop = ''load_balancer_inbound_nat_rule_ids''
      then Some (load_balancer_inbound_nat_rule_ids ns)
      else if prop = ''load_balancer_backend_address_pool_ids''
      then Some (load_balancer_backend_address_pool_ids ns)
      else None)"

definition setattr_list :: "namespace \<Rightarrow> string \<Rightarrow> list_arg \<Rightarrow> namespace" where
  "setattr_list ns prop v =
     (if prop = ''load_balancer_inbound_nat_rule_ids''
      then ns\<lparr>load_balancer_inbound_nat_rule_ids := v\<rparr>
      else if prop = ''load_balancer_backend_address_pool_ids''
      then ns\<lparr>load_balancer_backend_address_pool_ids := v\<rparr>
      else ns)"

text \<open>
  The loop of \<^verbatim>\<open>_generate_lb_id_list_from_names_or_ids\<close> (lines 36-49): \<open>result\<close>
  is the list built so far. The first name met without a load-balancer name raises. An
  item that is a dictionary (the validator's own output) is not a string. The empty
  dictionary is false in a condition: the recognizer answers no without reading it, and
  the item is handled as a name that prints as \<^verbatim>\<open>{}\<close>. On any other dictionary the
  recognizer, a string function, ends in \<^verbatim>\<open>TypeError\<close>.
\<close>

fun lb_id_loop ::
  "env \<Rightarrow> namespace \<Rightarrow> string \<Rightarrow> item list \<Rightarrow> item list \<Rightarrow> error + item list" where
  "lb_id_loop E ns child_type result [] = Inr result"
| "lb_id_loop E ns child_type result (Dict d # raw) =
     (if d \<noteq> [] then Inl TypeError
      else if \<not> truthy (load_balancer_name ns)
      then Inl (CLIError ''Unable to process {}. Please supply a well-formed ID or --lb-name.'')
      else lb_id_loop E ns child_type
             (result @ [Dict [(''id'', generate_lb_subproperty_id E (resource_group_name ns)
                                 (load_balancer_name ns) child_type (Some ''{}'')
                                 (Some (get_subscription_id E)))]]) raw)"
| "lb_id_loop E ns child_type result (Str item # raw) =
     (if is_valid_resource_id E (Some item)
      then lb_id_loop E ns child_type (result @ [Dict [(''id'', item)]]) raw
      else if \<not> truthy (load_balancer_name ns)
      then Inl (CLIError (''Unable to process '' @ item @
                  ''. Please supply a well-formed ID or --lb-name.''))
      else lb_id_loop E ns child_type
             (result @ [Dict [(''id'', generate_lb_subproperty_id E (resource_group_name ns)
                                 (load_balancer_name ns) child_type (Some item)
                                 (Some (get_subscription_id E)))]]) raw)"

text \<open>\<^verbatim>\<open>_generate_lb_id_list_from_names_or_ids\<close> (lines 28-50): nothing is assigned
  unless the loop ends.\<close>

definition generate_lb_id_list_from_names_or_ids ::
  "env \<Rightarrow> namespace \<Rightarrow> string \<Rightarrow> string \<Rightarrow> result" where
  "generate_lb_id_list_from_names_or_ids E ns prop child_type =
     (case getattr_list ns prop of
        None \<Rightarrow> Inl (AttributeError prop, ns)
      | Some raw \<Rightarrow>
          if \<not> truthy_arg raw then Inr ns
          else (case lb_id_loop E ns child_type []
                       (case raw of ArgList xs \<Rightarrow> xs | ArgStr s \<Rightarrow> [Str s] | ArgNone \<Rightarrow> []) of
                  Inl e \<Rightarrow> Inl (e, ns)
                | Inr result \<Rightarrow> Inr (setattr_list ns prop (ArgList result))))"

definition validate_inbound_nat_rule_id_list :: "env \<Rightarrow> namespace \<Rightarrow> result" where
  "validate_inbound_nat_rule_id_list E ns =
     generate_lb_id_list_from_names_or_ids E ns
       ''load_balancer_inbound_nat_rule_ids'' ''inboundNatRules''"

definition validate_address_pool_id_list :: "env \<Rightarrow> namespace \<Rightarrow> result" where
  "validate_address_pool_id_list E ns =
     generate_lb_id_list_from_names_or_ids E ns
       ''load_balancer_backend_address_pool_ids'' ''backendAddressPools''"

text \<open>\<^verbatim>\<open>validate_inbound_nat_rule_name_or_id\<close> (lines 60-74).\<close>

definition validate_inbound_nat_rule_name_or_id :: "env \<Rightarrow> namespace \<Rightarrow> result" where
  "validate_inbound_nat_rule_name_or_id E ns =
     (let rule_name = inbound_nat_rule ns; lb_name = load_balancer_name ns in
      if is_valid_resource_id E rule_name then
        (if truthy lb_name
         then Inl (CLIError ''Please omit --lb-name when specifying an inbound NAT rule ID.'', ns)
         else Inr ns)
      else if \<not> truthy lb_name
      then Inl (CLIError ''Please specify --lb-name when specifying an inbound NAT rule name.'', ns)
      else Inr (ns\<lparr>inbound_nat_rule :=
                   Some (generate_lb_subproperty_id E (resource_group_name ns) lb_name
                           ''inboundNatRules'' rule_name None)\<rparr>))"

text \<open>\<^verbatim>\<open>validate_address_pool_name_or_id\<close> (lines 76-90).\<close>

definition validate_address_pool_name_or_id :: "env \<Rightarrow> namespace \<Rightarrow> result" where
  "validate_address_pool_name_or_id E ns =
     (let pool_name = backend_address_pool ns; lb_name = load_balancer_name ns in
      if is_valid_resource_id E pool_name then
        (if truthy lb_name
         then Inl (CLIError ''Please omit --lb-name when specifying an address pool ID.'', ns)
         else Inr ns)
      else if \<not> truthy lb_name
      then Inl (CLIError ''Please specify --lb-name when specifying an address pool name.'', ns)
      else Inr (ns\<lparr>backend_address_pool :=
                   Some (generate_lb_subproperty_id E (resource_group_name ns) lb_name
                           ''backendAddressPools'' pool_name None)\<rparr>))"

text \<open>\<^verbatim>\<open>validate_subnet_name_or_id\<close> (lines 92-120).\<close>

definition validate_subnet_name_or_id :: "env \<Rightarrow> namespace \<Rightarrow> result" where
  "validate_subnet_name_or_id E ns =
     (if virtual_network_name ns = None \<and> subnet ns = None then Inr ns
      else if subnet ns = Some [] then Inr ns
      else if truthy (virtual_network_name ns) \<and> \<not> truthy (subnet ns)
      then Inl (CLIError ''You must specify --subnet name when using --vnet-name.'', ns)
      else
        (let is_id = is_valid_resource_id E (subnet ns) in
         if is_id \<and> truthy (virtual_network_name ns)
         then Inl (ArgumentError ''Please omit --vnet-name when specifying a subnet ID'', ns)
         else if \<not> is_id \<and> \<not> truthy (virtual_network_name ns)
         then Inl (ArgumentError ''Please specify --vnet-name when specifying a subnet name'', ns)
         else if \<not> is_id
         then Inr (ns\<lparr>subnet :=
                      Some (resource_id (get_subscription_id E) (resource_group_name ns)
                              ''Microsoft.Network'' ''virtualNetworks'' (virtual_network_name ns)
                              (Some (''subnets'', subnet ns)))\<rparr>)
         else Inr ns))"

text \<open>\<^verbatim>\<open>validate_public_ip_name_or_id\<close> (lines 126-137).\<close>

definition validate_public_ip_name_or_id :: "env \<Rightarrow> namespace \<Rightarrow> result" where
  "validate_public_ip_name_or_id E ns =
     (if truthy (public_ip_address ns) then
        (let is_id = is_valid_resource_id E (public_ip_address ns) in
         if \<not> is_id
         then Inr (ns\<lparr>public_ip_address :=
                      Some (resource_id (get_subscription_id E) (resource_group_name ns)
                              ''Microsoft.Network'' ''publicIPAddresses'' (public_ip_address ns)
                              None)\<rparr>)
         else Inr ns)
      else Inr ns)"

text \<open>\<^verbatim>\<open>validate_public_ip_type\<close> (lines 139-151).\<close>

definition validate_public_ip_type :: "namespace \<Rightarrow> result" where
  "validate_public_ip_type ns =
     (let ns1 = (if truthy (subnet ns) then ns\<lparr>public_ip_address_type := Some ''none''\<rparr> else ns) in
      if truthy (subnet ns) \<and> truthy (public_ip_address ns1)
      then Inl (ArgumentError
                  ''Cannot specify --subnet and --public-ip-address when creating a load balancer.'',
                ns1)
      else if truthy (public_ip_address ns1) \<and> truthy (public_ip_dns_name ns1) \<and>
              public_ip_address_type ns1 \<noteq> Some ''new''
      then Inl (ArgumentError
                  ''Can only specify --public-ip-dns-name when creating a new public IP address.'',
                ns1)
      else Inr ns1)"

text \<open>\<^verbatim>\<open>validate_nsg_name_or_id\<close> (lines 153-164).\<close>

definition validate_nsg_name_or_id :: "env \<Rightarrow> namespace \<Rightarrow> result" where
  "validate_nsg_name_or_id E ns =
     (if truthy (network_security_group ns) then
        (let is_id = is_valid_resource_id E (network_security_group ns) in
         if \<not> is_id
         then Inr (ns\<lparr>network_security_group :=
                      Some (resource_id (get_subscription_id E) (resource_group_name ns)
                              ''Microsoft.Network'' ''networkSecurityGroups''
                              (network_security_group ns) None)\<rparr>)
         else Inr ns)
      else Inr ns)"

text \<open>
  \<^verbatim>\<open>SPECIFIED_SENTINEL\<close> is imported from \<^verbatim>\<open>azure.cli.commands.validators\<close>; its
  value is the marker that \<^verbatim>\<open>markSpecifiedAction\<close> (lines 255-259) puts in front of a
  value the user gave explicitly, and that its docstring tells a validator to remove
  (\<^verbatim>\<open>the __SET__ sentinel substring\<close>).
\<close>

definition SPECIFIED_SENTINEL :: string where
  "SPECIFIED_SENTINEL = ''__SET__''"

definition markSpecifiedAction :: "string \<Rightarrow> string" where
  "markSpecifiedAction values = ''__SET__'' @ values"

text \<open>\<^verbatim>\<open>validate_address_prefixes\<close> (lines 166-176). Both prefixes are strings: the
  parser gives them defaults.\<close>

definition validate_address_prefixes :: "namespace \<Rightarrow> result" where
  "validate_address_prefixes ns =
     (let subnet_prefix_set = str_contains SPECIFIED_SENTINEL (subnet_address_prefix ns);
          vnet_prefix_set = str_contains SPECIFIED_SENTINEL (vnet_address_prefix ns);
          ns1 = ns\<lparr>subnet_address_prefix :=
                     str_replace (subnet_address_prefix ns) SPECIFIED_SENTINEL []\<rparr>;
          ns2 = ns1\<lparr>vnet_address_prefix :=
                     str_replace (vnet_address_prefix ns1) SPECIFIED_SENTINEL []\<rparr>
      in if subnet_type ns2 \<noteq> Some ''new'' \<and> (subnet_prefix_set \<or> vnet_prefix_set)
         then Inl (CLIError (''Existing subnet ('' @ py_str (subnet ns2) @
                     '') found. Cannot specify address prefixes when reusing an existing subnet.''),
                   ns2)
         else Inr ns2)"

subsection \<open>Base64, UTF-8 and the text of a bytes object\<close>

text \<open>
  \<^verbatim>\<open>base64.b64encode\<close> (RFC 4648, standard alphabet, padded): three bytes give four
  characters of six bits each, looked up in the table under the mask \<^verbatim>\<open>0x3f\<close>.
\<close>

definition b64_table :: string where
  "b64_table = ''ABCDEFGHIJKLMNOPQRSTUVWXYZabcdefghijklmnopqrstuvwxyz0123456789+/''"

definition b64_char :: "nat \<Rightarrow> char" where
  "b64_char n = b64_table ! (n mod 64)"

fun b64encode :: "bytes \<Rightarrow> bytes" where
  "b64encode [] = []"
| "b64encode [a] =
     [b64_char (of_char a div 4), b64_char ((of_char a mod 4) * 16), CHR ''='', CHR ''='']"
| "b64encode [a, b] =
     [b64_char (of_char a div 4),
      b64_char ((of_char a mod 4) * 16 + of_char b div 16),
      b64_char ((of_char b mod 16) * 4), CHR ''='']"
| "b64encode (a # b # c # rest) =
     [b64_char (of_char a div 4),
      b64_char ((of_char a mod 4) * 16 + of_char b div 16),
      b64_char ((of_char b mod 16) * 4 + of_char c div 64),
      b64_char (of_char c mod 64)] @ b64encode rest"

text \<open>
  \<^verbatim>\<open>bytes.decode('utf-8')\<close>: the strict decoder accepts the well-formed byte
  sequences of the Unicode standard (no overlong forms, no surrogates, nothing above
  U+10FFFF) and raises \<^verbatim>\<open>UnicodeDecodeError\<close> on every other input. The text is
  represented by its UTF-8 bytes, so decoding returns the bytes it accepted.
\<close>

definition in_range :: "char \<Rightarrow> nat \<Rightarrow> nat \<Rightarrow> bool" where
  "in_range c lo hi = (lo \<le> of_char c \<and> (of_char c :: nat) \<le> hi)"

fun utf8_valid :: "bytes \<Rightarrow> bool" where
  "utf8_valid [] = True"
| "utf8_valid (c # cs) =
     (if (of_char c :: nat) < 128 then utf8_valid cs
      else if in_range c 194 223 then
        (case cs of c1 # r \<Rightarrow> in_range c1 128 191 \<and> utf8_valid r | _ \<Rightarrow> False)
      else if in_range c 224 239 then
        (case cs of
           c1 # c2 # r \<Rightarrow>
             in_range c1 (if of_char c = (224::nat) then 160 else 128)
                         (if of_char c = (237::nat) then 159 else 191) \<and>
             in_range c2 128 191 \<and> utf8_valid r
         | _ \<Rightarrow> False)
      else if in_range c 240 244 then
        (case cs of
           c1 # c2 # c3 # r \<Rightarrow>
             in_range c1 (if of_char c = (240::nat) then 144 else 128)
                         (if of_char c = (244::nat) then 143 else 191) \<and>
             in_range c2 128 191 \<and> in_range c3 128 191 \<and> utf8_valid r
         | _ \<Rightarrow> False)
      else False)"

definition decode_utf8 :: "bytes \<Rightarrow> string option" where
  "decode_utf8 bs = (if utf8_valid bs then Some bs else None)"

text \<open>
  \<^verbatim>\<open>str(b)\<close> of a bytes object (Python 3): \<^verbatim>\<open>b'...'\<close>, in double quotes when the
  bytes hold a single quote and no double quote, with backslash escapes for the quote,
  the backslash, tab, newline, carriage return and every byte outside printable ASCII.
\<close>

definition hex_digit :: "nat \<Rightarrow> char" where
  "hex_digit n = ''0123456789abcdef'' ! (n mod 16)"

definition bytes_repr_char :: "char \<Rightarrow> char \<Rightarrow> string" where
  "bytes_repr_char quote c =
     (if c = quote \<or> c = CHR 0x5C then [CHR 0x5C, c]
      else if c = CHR 0x09 then [CHR 0x5C, CHR ''t'']
      else if c = CHR 0x0A then [CHR 0x5C, CHR ''n'']
      else if c = CHR 0x0D then [CHR 0x5C, CHR ''r'']
      else if (of_char c :: nat) < 32 \<or> (of_char c :: nat) \<ge> 127
      then [CHR 0x5C, CHR ''x'', hex_digit (of_char c div 16), hex_digit (of_char c mod 16)]
      else [c])"

definition bytes_repr :: "bytes \<Rightarrow> string" where
  "bytes_repr bs =
     (let quote = (if CHR 0x27 \<in> set bs \<and> CHR 0x22 \<notin> set bs then CHR 0x22 else CHR 0x27)
      in [CHR ''b'', quote] @ concat (map (bytes_repr_char quote) bs) @ [quote])"

text \<open>\<^verbatim>\<open>validate_cert\<close> (lines 188-214).\<close>

definition cert_text :: "bytes \<Rightarrow> string" where
  "cert_text contents =
     (let base64_data = b64encode contents in
      case decode_utf8 base64_data of
        Some t \<Rightarrow> t
      | None \<Rightarrow> bytes_repr base64_data)"

definition validate_cert :: "env \<Rightarrow> namespace \<Rightarrow> result" where
  "validate_cert E ns =
     (let params = [cert_data ns, cert_password ns] in
      if list_all (\<lambda>x. \<not> truthy x) params then
        (let ns1 = ns\<lparr>http_listener_protocol := Some ''http''\<rparr> in
         if \<not> truthy_int (frontend_port ns1) then Inr (ns1\<lparr>frontend_port := Some 80\<rparr>)
         else Inr ns1)
      else if \<not> list_all truthy params
      then Inl (ArgumentError
                  ''To use SSL certificate, you must specify both the filename and password'', ns)
      else
        (case read_file E (py_str (cert_data ns)) of
           None \<Rightarrow> Inl (IOError (py_str (cert_data ns)), ns)
         | Some contents \<Rightarrow>
             (let ns1 = ns\<lparr>cert_data := Some (cert_text contents)\<rparr>;
                  ns2 = ns1\<lparr>http_listener_protocol := Some ''https''\<rparr>
              in if \<not> truthy_int (frontend_port ns2) then Inr (ns2\<lparr>frontend_port := Some 443\<rparr>)
                 else Inr ns2)))"

subsection \<open>The address test of the C library, and the backend servers\<close>

text \<open>
  \<^verbatim>\<open>socket.inet_aton\<close> hands its argument to the C library's \<^verbatim>\<open>inet_aton\<close>
  (\<^verbatim>\<open>inet(3)\<close>), modelled here as the GNU C library implements it. An address is one
  to four numbers separated by dots. Each number starts with a digit and is read as
  \<^verbatim>\<open>strtoul\<close> with base 0 reads it: hexadecimal after \<^verbatim>\<open>0x\<close>, octal after a leading
  \<^verbatim>\<open>0\<close>, decimal otherwise. Every number followed by a dot is at most 255; the last
  one fills the remaining bytes; after it the string ends or goes on with white space.
\<close>

definition is_digit :: "char \<Rightarrow> bool" where
  "is_digit c = (48 \<le> (of_char c :: nat) \<and> (of_char c :: nat) \<le> 57)"

definition is_octal :: "char \<Rightarrow> bool" where
  "is_octal c = (48 \<le> (of_char c :: nat) \<and> (of_char c :: nat) \<le> 55)"

definition is_xdigit :: "char \<Rightarrow> bool" where
  "is_xdigit c =
     (is_digit c \<or> (97 \<le> (of_char c :: nat) \<and> (of_char c :: nat) \<le> 102) \<or>
      (65 \<le> (of_char c :: nat) \<and> (of_char c :: nat) \<le> 70))"

definition is_space :: "char \<Rightarrow> bool" where
  "is_space c = (c = CHR 0x20 \<or> (9 \<le> (of_char c :: nat) \<and> (of_char c :: nat) \<le> 13))"

definition digit_value :: "char \<Rightarrow> nat" where
  "digit_value c =
     (if is_digit c then of_char c - 48
      else if 97 \<le> (of_char c :: nat) then of_char c - 87
      else of_char c - 55)"

definition number_value :: "nat \<Rightarrow> string \<Rightarrow> nat" where
  "number_value base ds = foldl (\<lambda>n c. base * n + digit_value c) 0 ds"

text \<open>\<^verbatim>\<open>strtoul(cp, &endp, 0)\<close> on a string that starts with a digit: the value read
  and the rest of the string. A \<^verbatim>\<open>0x\<close> with no hexadecimal digit after it is the
  number 0 followed by \<^verbatim>\<open>x\<close>.\<close>

definition strtoul :: "string \<Rightarrow> nat \<times> string" where
  "strtoul cp =
     (if 3 \<le> length cp \<and> cp ! 0 = CHR ''0'' \<and> (cp ! 1 = CHR ''x'' \<or> cp ! 1 = CHR ''X'') \<and>
         is_xdigit (cp ! 2)
      then (number_value 16 (takeWhile is_xdigit (drop 2 cp)), dropWhile is_xdigit (drop 2 cp))
      else if take 1 cp = ''0''
      then (number_value 8 (takeWhile is_octal cp), dropWhile is_octal cp)
      else (number_value 10 (takeWhile is_digit cp), dropWhile is_digit cp))"

text \<open>The loop of \<^verbatim>\<open>inet_aton\<close>: \<open>n\<close> counts the numbers already stored, \<open>cp\<close>
  is what is left to read.\<close>

function inet_aton_parts :: "nat \<Rightarrow> string \<Rightarrow> bool" where
  "inet_aton_parts n cp =
     (if cp = [] \<or> \<not> is_digit (hd cp) then False
      else if fst (strtoul cp) > 0xffffffff then False
      else if take 1 (snd (strtoul cp)) = ''.'' then
        (if n > 2 \<or> fst (strtoul cp) > 0xff then False
         else inet_aton_parts (Suc n) (drop 1 (snd (strtoul cp))))
      else if snd (strtoul cp) \<noteq> [] \<and> \<not> is_space (hd (snd (strtoul cp))) then False
      else fst (strtoul cp) \<le> [0xffffffff, 0xffffff, 0xffff, 0xff] ! n)"
  by pat_completeness auto
termination
  by (relation "measure (\<lambda>(n, cp). 3 - n)") auto

definition inet_aton_accepts :: "string \<Rightarrow> bool" where
  "inet_aton_accepts s = inet_aton_parts 0 s"




section \<open>Command namespace validators\<close>

text \<open>\<^verbatim>\<open>process_lb_create_namespace\<close> (lines 231-237).\<close>

definition process_lb_create_namespace :: "namespace \<Rightarrow> result" where
  "process_lb_create_namespace ns =
     (let ns1 = (if truthy (public_ip_dns_name ns) then ns\<lparr>dns_name_type := Some ''new''\<rparr> else ns) in
      if truthy (subnet ns1) \<and> truthy (public_ip_address ns1)
      then Inl (ArgumentError ''Must specify a subnet OR a public IP address, not both.'', ns1)
      else Inr ns1)"

section \<open>A concrete environment\<close>

text \<open>
  Modelled from the spec: \<^verbatim>\<open>is_valid_resource_id\<close> is imported from
  \<^verbatim>\<open>azure.cli.commands.arm\<close>, which is not among the sources. Section 4.1 of the
  specification calls a string an identifier when it matches the resource-identifier
  shape \<^verbatim>\<open>/subscriptions/{sub}/resourceGroups/{rg}/providers/Microsoft.Network/{parentType}/{parentName}\<close>,
  with or without the child segments \<^verbatim>\<open>/{childType}/{childName}\<close>.
\<close>

definition resource_id_shape :: "string option \<Rightarrow> bool" where
  "resource_id_shape v =
     (case v of
        None \<Rightarrow> False
      | Some s \<Rightarrow>
          (let segs = split_on CHR ''/'' s in
           (length segs = 9 \<or> length segs = 11) \<and>
           segs ! 0 = [] \<and> segs ! 1 = ''subscriptions'' \<and> segs ! 3 = ''resourceGroups'' \<and>
           segs ! 5 = ''providers'' \<and> segs ! 6 = ''Microsoft.Network''))"


text \<open>The environment of the examples: subscription \<^verbatim>\<open>sub1\<close>, and one readable
  file, \<^verbatim>\<open>cert.pfx\<close>, holding the three bytes \<^verbatim>\<open>Man\<close>.\<close>

definition demo_env :: env where
  "demo_env =
     \<lparr>is_valid_resource_id = resource_id_shape,
      get_subscription_id = ''sub1'',
      read_file = (\<lambda>path. if path = ''cert.pfx'' then Some ''Man'' else None)\<rparr>"

text \<open>The namespace of a command line that passes no option: every attribute
  \<^verbatim>\<open>None\<close>, the two address prefixes at their defaults.\<close>

definition empty_ns :: namespace where
  "empty_ns =
     \<lparr>resource_group_name = None,
      load_balancer_name = None,
      load_balancer_inbound_nat_rule_ids = ArgNone,
      load_balancer_backend_address_pool_ids = ArgNone,
      inbound_nat_rule = None,
      backend_address_pool = None,
      virtual_network_name = None,
      subnet = None,
      subnet_type = None,
      subnet_address_prefix = ''10.0.0.0/24'',
      vnet_address_prefix = ''10.0.0.0/16'',
      public_ip_address = None,
      public_ip_address_type = None,
      public_ip_dns_name = None,
      dns_name_type = None,
      network_security_group = None,
      servers = ArgNone,
      cert_data = None,
      cert_password = None,
      http_listener_protocol = None,
      frontend_port = None\<rparr>"

section \<open>Example namespaces\<close>

text \<open>A load balancer created with both a subnet and a public IP address.\<close>

definition c9_ns :: namespace where
  "c9_ns = empty_ns\<lparr>subnet := Some ''subnet1'', public_ip_address := Some ''ip1'',
                     public_ip_address_type := Some ''new''\<rparr>"

text \<open>A subnet identifier of the shape of section 4.1.\<close>

definition subnet1_id :: string where
  "subnet1_id = ''/subscriptions/sub1/resourceGroups/rg1/providers/Microsoft.Network/virtualNetworks/vnet1/subnets/subnet1''"

text \<open>Identifiers of the shape of section 4.1, one for each kind of resource.\<close>

definition rule1_id :: string where
  "rule1_id = ''/subscriptions/sub1/resourceGroups/rg1/providers/Microsoft.Network/loadBalancers/lb1/inboundNatRules/rule1''"

definition pool1_id :: string where
  "pool1_id = ''/subscriptions/sub1/resourceGroups/rg1/providers/Microsoft.Network/loadBalancers/lb1/backendAddressPools/pool1''"

definition ip1_id :: string where
  "ip1_id = ''/subscriptions/sub1/resourceGroups/rg1/providers/Microsoft.Network/publicIPAddresses/ip1''"

definition nsg1_id :: string where
  "nsg1_id = ''/subscriptions/sub1/resourceGroups/rg1/providers/Microsoft.Network/networkSecurityGroups/nsg1''"

text \<open>Every identifier-typed attribute already holds an identifier, and no parent name
  is given.\<close>

definition ids_ns :: namespace where
  "ids_ns = empty_ns\<lparr>resource_group_name := Some ''rg1'',
                      inbound_nat_rule := Some rule1_id,
                      backend_address_pool := Some pool1_id,
                      subnet := Some subnet1_id,
                      public_ip_address := Some ip1_id,
                      network_security_group := Some nsg1_id\<rparr>"

text \<open>The same, with \<^verbatim>\<open>--lb-name lb1\<close> and \<^verbatim>\<open>--vnet-name vnet1\<close> on the command
  line as well.\<close>

definition ids_with_parents_ns :: namespace where
  "ids_with_parents_ns = ids_ns\<lparr>load_balancer_name := Some ''lb1'',
                                  virtual_network_name := Some ''vnet1''\<rparr>"

text \<open>Every identifier-typed attribute holds a bare name, with resource group,
  load-balancer name and virtual-network name given.\<close>

definition names_ns :: namespace where
  "names_ns = empty_ns\<lparr>resource_group_name := Some ''rg1'',
                        load_balancer_name := Some ''lb1'',
                        virtual_network_name := Some ''vnet1'',
                        inbound_nat_rule := Some ''rule1'',
                        backend_address_pool := Some ''pool1'',
                        subnet := Some ''subnet1'',
                        public_ip_address := Some ''ip1'',
                        network_security_group := Some ''nsg1''\<rparr>"

text \<open>Whether an exception, if any, is a \<^verbatim>\<open>CLIError\<close>.\<close>

definition is_cli_error :: "error option \<Rightarrow> bool" where
  "is_cli_error e = (case e of Some (CLIError msg) \<Rightarrow> True | _ \<Rightarrow> False)"

text \<open>Bare names with a resource group but neither \<^verbatim>\<open>--lb-name\<close> nor
  \<^verbatim>\<open>--vnet-name\<close>; the list attributes mix an identifier with bare names.\<close>

definition orphans_ns :: namespace where
  "orphans_ns = empty_ns\<lparr>resource_group_name := Some ''rg1'',
                          inbound_nat_rule := Some ''rule1'',
                          backend_address_pool := Some ''pool1'',
                          subnet := Some ''subnet1'',
                          load_balancer_inbound_nat_rule_ids :=
                            ArgList (map Str [rule1_id, ''rule2'', ''rule3'']),
                          load_balancer_backend_address_pool_ids :=
                            ArgList (map Str [''pool2''])\<rparr>"

text \<open>The same lists with \<^verbatim>\<open>--lb-name lb1\<close>.\<close>

definition lists_ns :: namespace where
  "lists_ns = orphans_ns\<lparr>load_balancer_name := Some ''lb1''\<rparr>"


text \<open>The user passes \<^verbatim>\<open>--subnet-address-prefix __SE__SET__T__\<close> for a new subnet;
  \<^verbatim>\<open>markSpecifiedAction\<close> stores the value behind the marker.\<close>

definition overlapping_prefix_ns :: namespace where
  "overlapping_prefix_ns =
     empty_ns\<lparr>subnet_address_prefix := markSpecifiedAction ''__SE__SET__T__'',
              subnet_type := Some ''new''\<rparr>"

text \<open>An explicit subnet prefix, for a new subnet and for an existing one.\<close>

definition new_subnet_ns :: namespace where
  "new_subnet_ns =
     empty_ns\<lparr>subnet_address_prefix := markSpecifiedAction ''10.0.1.0/24'',
              subnet_type := Some ''new''\<rparr>"

definition existing_subnet_ns :: namespace where
  "existing_subnet_ns =
     empty_ns\<lparr>subnet_address_prefix := markSpecifiedAction ''10.0.1.0/24'',
              subnet_type := Some ''existing'', subnet := Some ''subnet1''\<rparr>"

text \<open>A certificate file with its password; the password alone; and a command line
  that sets the frontend port and no certificate.\<close>

definition cert_ns :: namespace where
  "cert_ns = empty_ns\<lparr>cert_data := Some ''cert.pfx'', cert_password := Some ''secret''\<rparr>"

definition password_only_ns :: namespace where
  "password_only_ns = empty_ns\<lparr>cert_password := Some ''secret''\<rparr>"

definition port_ns :: namespace where
  "port_ns = empty_ns\<lparr>frontend_port := Some 8080\<rparr>"



section \<open>Properties of the validators\<close>

subsection \<open>Subnet and public IP address\<close>

text \<open>
  Claim C9. With a subnet set, \<^verbatim>\<open>validate_public_ip_type\<close> leaves
  \<^verbatim>\<open>public_ip_address_type\<close> at \<^verbatim>\<open>'none'\<close>, whether it returns or raises; and
  with a public IP address set as well, both it and \<^verbatim>\<open>process_lb_create_namespace\<close>
  raise \<^verbatim>\<open>argparse.ArgumentError\<close>.
\<close>

theorem subnet_forces_public_ip_type_none:
  assumes "truthy (subnet ns)"
  shows "public_ip_address_type (final_ns (validate_public_ip_type ns)) = Some ''none'' \<and>
         (truthy (public_ip_address ns) \<longrightarrow>
            raised (validate_public_ip_type ns) =
              Some (ArgumentError
                ''Cannot specify --subnet and --public-ip-address when creating a load balancer.'') \<and>
            raised (process_lb_create_namespace ns) =
              Some (ArgumentError ''Must specify a subnet OR a public IP address, not both.''))"
  using assms
  by (simp add: validate_public_ip_type_def process_lb_create_namespace_def final_ns_def
      raised_def Let_def)

theorem subnet_forces_public_ip_type_none_witness:
  "truthy (subnet c9_ns) \<and> truthy (public_ip_address c9_ns) \<and>
   public_ip_address_type c9_ns = Some ''new'' \<and>
   public_ip_address_type (final_ns (validate_public_ip_type c9_ns)) = Some ''none'' \<and>
   raised (validate_public_ip_type c9_ns) =
     Some (ArgumentError
             ''Cannot specify --subnet and --public-ip-address when creating a load balancer.'') \<and>
   raised (process_lb_create_namespace c9_ns) =
     Some (ArgumentError ''Must specify a subnet OR a public IP address, not both.'')"
proof -
  have s: "truthy (subnet c9_ns)" and p: "truthy (public_ip_address c9_ns)"
    by (simp_all add: c9_ns_def empty_ns_def truthy_def)
  show ?thesis
    using s p subnet_forces_public_ip_type_none [OF s]
    by (simp add: c9_ns_def empty_ns_def)
qed

subsection \<open>Subnet and virtual-network name\<close>

lemma subnet1_id_shape: "resource_id_shape (Some subnet1_id)"
  by (simp add: resource_id_shape_def subnet1_id_def Let_def)

text \<open>
  Claim C6. \<^verbatim>\<open>validate_subnet_name_or_id\<close>: a subnet identifier together with a
  virtual-network name raises; a virtual-network name with no subnet raises; with
  neither, the namespace is returned as it was; and with the subnet set to the empty
  string the namespace is returned as it was, whatever the virtual-network name.
\<close>

theorem subnet_vnet_exclusivity:
  "(subnet ns = Some s \<and> s \<noteq> [] \<and> is_valid_resource_id E (Some s) \<and>
      truthy (virtual_network_name ns) \<longrightarrow>
      validate_subnet_name_or_id E ns =
        Inl (ArgumentError ''Please omit --vnet-name when specifying a subnet ID'', ns)) \<and>
   (truthy (virtual_network_name ns) \<and> subnet ns = None \<longrightarrow>
      validate_subnet_name_or_id E ns =
        Inl (CLIError ''You must specify --subnet name when using --vnet-name.'', ns)) \<and>
   (virtual_network_name ns = None \<and> subnet ns = None \<longrightarrow>
      validate_subnet_name_or_id E ns = Inr ns) \<and>
   (subnet ns = Some [] \<longrightarrow> validate_subnet_name_or_id E ns = Inr ns)"
  by (auto simp add: validate_subnet_name_or_id_def truthy_def Let_def)

theorem subnet_vnet_exclusivity_witness:
  "validate_subnet_name_or_id demo_env
     (empty_ns\<lparr>subnet := Some subnet1_id, virtual_network_name := Some ''vnet1''\<rparr>) =
     Inl (ArgumentError ''Please omit --vnet-name when specifying a subnet ID'',
          empty_ns\<lparr>subnet := Some subnet1_id, virtual_network_name := Some ''vnet1''\<rparr>) \<and>
   validate_subnet_name_or_id demo_env (empty_ns\<lparr>virtual_network_name := Some ''vnet1''\<rparr>) =
     Inl (CLIError ''You must specify --subnet name when using --vnet-name.'',
          empty_ns\<lparr>virtual_network_name := Some ''vnet1''\<rparr>) \<and>
   validate_subnet_name_or_id demo_env empty_ns = Inr empty_ns \<and>
   validate_subnet_name_or_id demo_env
     (empty_ns\<lparr>subnet := Some [], virtual_network_name := Some ''vnet1''\<rparr>) =
     Inr (empty_ns\<lparr>subnet := Some [], virtual_network_name := Some ''vnet1''\<rparr>)"
proof -
  have ne: "subnet1_id \<noteq> []" by (simp add: subnet1_id_def)
  show ?thesis
    using subnet1_id_shape ne
      subnet_vnet_exclusivity [of "empty_ns\<lparr>subnet := Some subnet1_id, virtual_network_name := Some ''vnet1''\<rparr>" subnet1_id demo_env]
      subnet_vnet_exclusivity [of "empty_ns\<lparr>virtual_network_name := Some ''vnet1''\<rparr>" "[]" demo_env]
      subnet_vnet_exclusivity [of empty_ns "[]" demo_env]
      subnet_vnet_exclusivity [of "empty_ns\<lparr>subnet := Some [], virtual_network_name := Some ''vnet1''\<rparr>" "[]" demo_env]
    by (simp add: demo_env_def empty_ns_def truthy_def)
qed

subsection \<open>Attributes that already hold an identifier\<close>

lemma example_ids_shape:
  "resource_id_shape (Some rule1_id)" "resource_id_shape (Some pool1_id)"
  "resource_id_shape (Some ip1_id)" "resource_id_shape (Some nsg1_id)"
  by (simp_all add: resource_id_shape_def rule1_id_def pool1_id_def ip1_id_def nsg1_id_def Let_def)

text \<open>
  Claim C1, as stated, fails: with an inbound NAT rule identifier and
  \<^verbatim>\<open>--lb-name\<close> both given, \<^verbatim>\<open>validate_inbound_nat_rule_name_or_id\<close> raises
  \<^verbatim>\<open>CLIError\<close>.
\<close>

theorem valid_id_with_lb_name_raises:
  "inbound_nat_rule ids_with_parents_ns = Some rule1_id \<and>
   is_valid_resource_id demo_env (Some rule1_id) \<and>
   validate_inbound_nat_rule_name_or_id demo_env ids_with_parents_ns =
     Inl (CLIError ''Please omit --lb-name when specifying an inbound NAT rule ID.'',
          ids_with_parents_ns)"
  using example_ids_shape(1)
  by (simp add: validate_inbound_nat_rule_name_or_id_def ids_with_parents_ns_def ids_ns_def
      empty_ns_def demo_env_def truthy_def)

text \<open>
  Claim C1, amended. When the attribute holds a string recognized as a resource
  identifier, each scalar name-or-id validator leaves the namespace as it was. The
  public IP and network security group validators return. The inbound NAT rule and
  address pool validators return when no load-balancer name is set and raise
  \<^verbatim>\<open>CLIError\<close> when one is; the subnet validator returns when no virtual-network
  name is set (or the identifier is the empty string) and raises
  \<^verbatim>\<open>argparse.ArgumentError\<close> when one is.
\<close>

theorem valid_id_left_unchanged:
  "(inbound_nat_rule ns = Some rule \<and> is_valid_resource_id E (Some rule) \<longrightarrow>
      final_ns (validate_inbound_nat_rule_name_or_id E ns) = ns \<and>
      raised (validate_inbound_nat_rule_name_or_id E ns) =
        (if truthy (load_balancer_name ns)
         then Some (CLIError ''Please omit --lb-name when specifying an inbound NAT rule ID.'')
         else None)) \<and>
   (backend_address_pool ns = Some pool \<and> is_valid_resource_id E (Some pool) \<longrightarrow>
      final_ns (validate_address_pool_name_or_id E ns) = ns \<and>
      raised (validate_address_pool_name_or_id E ns) =
        (if truthy (load_balancer_name ns)
         then Some (CLIError ''Please omit --lb-name when specifying an address pool ID.'')
         else None)) \<and>
   (subnet ns = Some sn \<and> is_valid_resource_id E (Some sn) \<longrightarrow>
      final_ns (validate_subnet_name_or_id E ns) = ns \<and>
      raised (validate_subnet_name_or_id E ns) =
        (if sn \<noteq> [] \<and> truthy (virtual_network_name ns)
         then Some (ArgumentError ''Please omit --vnet-name when specifying a subnet ID'')
         else None)) \<and>
   (public_ip_address ns = Some ip \<and> is_valid_resource_id E (Some ip) \<longrightarrow>
      validate_public_ip_name_or_id E ns = Inr ns) \<and>
   (network_security_group ns = Some nsg \<and> is_valid_resource_id E (Some nsg) \<longrightarrow>
      validate_nsg_name_or_id E ns = Inr ns)"
proof -
  have rule: "final_ns (validate_inbound_nat_rule_name_or_id E ns) = ns \<and>
      raised (validate_inbound_nat_rule_name_or_id E ns) =
        (if truthy (load_balancer_name ns)
         then Some (CLIError ''Please omit --lb-name when specifying an inbound NAT rule ID.'')
         else None)"
    if "inbound_nat_rule ns = Some rule" "is_valid_resource_id E (Some rule)"
    using that by (simp add: validate_inbound_nat_rule_name_or_id_def final_ns_def raised_def)
  have pool: "final_ns (validate_address_pool_name_or_id E ns) = ns \<and>
      raised (validate_address_pool_name_or_id E ns) =
        (if truthy (load_balancer_name ns)
         then Some (CLIError ''Please omit --lb-name when specifying an address pool ID.'')
         else None)"
    if "backend_address_pool ns = Some pool" "is_valid_resource_id E (Some pool)"
    using that by (simp add: validate_address_pool_name_or_id_def final_ns_def raised_def)
  have sn: "final_ns (validate_subnet_name_or_id E ns) = ns \<and>
      raised (validate_subnet_name_or_id E ns) =
        (if sn \<noteq> [] \<and> truthy (virtual_network_name ns)
         then Some (ArgumentError ''Please omit --vnet-name when specifying a subnet ID'')
         else None)"
    if "subnet ns = Some sn" "is_valid_resource_id E (Some sn)"
    using that by (simp add: validate_subnet_name_or_id_def final_ns_def raised_def truthy_def)
  have ip: "validate_public_ip_name_or_id E ns = Inr ns"
    if "public_ip_address ns = Some ip" "is_valid_resource_id E (Some ip)"
    using that by (simp add: validate_public_ip_name_or_id_def)
  have nsg: "validate_nsg_name_or_id E ns = Inr ns"
    if "network_security_group ns = Some nsg" "is_valid_resource_id E (Some nsg)"
    using that by (simp add: validate_nsg_name_or_id_def)
  from rule pool sn ip nsg show ?thesis by blast
qed

theorem valid_id_left_unchanged_witness:
  "is_valid_resource_id demo_env (Some rule1_id) \<and>
   is_valid_resource_id demo_env (Some pool1_id) \<and>
   is_valid_resource_id demo_env (Some subnet1_id) \<and>
   is_valid_resource_id demo_env (Some ip1_id) \<and>
   is_valid_resource_id demo_env (Some nsg1_id) \<and>
   final_ns (validate_inbound_nat_rule_name_or_id demo_env ids_ns) = ids_ns \<and>
   raised (validate_inbound_nat_rule_name_or_id demo_env ids_ns) = None \<and>
   final_ns (validate_address_pool_name_or_id demo_env ids_ns) = ids_ns \<and>
   raised (validate_address_pool_name_or_id demo_env ids_ns) = None \<and>
   final_ns (validate_subnet_name_or_id demo_env ids_ns) = ids_ns \<and>
   raised (validate_subnet_name_or_id demo_env ids_ns) = None \<and>
   validate_public_ip_name_or_id demo_env ids_ns = Inr ids_ns \<and>
   validate_nsg_name_or_id demo_env ids_ns = Inr ids_ns \<and>
   final_ns (validate_address_pool_name_or_id demo_env ids_with_parents_ns) =
     ids_with_parents_ns \<and>
   raised (validate_address_pool_name_or_id demo_env ids_with_parents_ns) =
     Some (CLIError ''Please omit --lb-name when specifying an address pool ID.'') \<and>
   final_ns (validate_subnet_name_or_id demo_env ids_with_parents_ns) =
     ids_with_parents_ns \<and>
   raised (validate_subnet_name_or_id demo_env ids_with_parents_ns) =
     Some (ArgumentError ''Please omit --vnet-name when specifying a subnet ID'')"
proof -
  have v: "is_valid_resource_id demo_env (Some rule1_id)"
    "is_valid_resource_id demo_env (Some pool1_id)"
    "is_valid_resource_id demo_env (Some subnet1_id)"
    "is_valid_resource_id demo_env (Some ip1_id)"
    "is_valid_resource_id demo_env (Some nsg1_id)"
    using example_ids_shape subnet1_id_shape by (simp_all add: demo_env_def)
  have f: "inbound_nat_rule ids_ns = Some rule1_id" "backend_address_pool ids_ns = Some pool1_id"
    "subnet ids_ns = Some subnet1_id" "public_ip_address ids_ns = Some ip1_id"
    "network_security_group ids_ns = Some nsg1_id"
    "load_balancer_name ids_ns = None" "virtual_network_name ids_ns = None"
    by (simp_all add: ids_ns_def empty_ns_def)
  have g: "inbound_nat_rule ids_with_parents_ns = Some rule1_id"
    "backend_address_pool ids_with_parents_ns = Some pool1_id"
    "subnet ids_with_parents_ns = Some subnet1_id"
    "public_ip_address ids_with_parents_ns = Some ip1_id"
    "network_security_group ids_with_parents_ns = Some nsg1_id"
    "load_balancer_name ids_with_parents_ns = Some ''lb1''"
    "virtual_network_name ids_with_parents_ns = Some ''vnet1''"
    by (simp_all add: ids_with_parents_ns_def ids_ns_def empty_ns_def)
  have ne: "subnet1_id \<noteq> []" by (simp add: subnet1_id_def)
  show ?thesis
    using v ne
      valid_id_left_unchanged [of ids_ns rule1_id demo_env pool1_id subnet1_id ip1_id nsg1_id]
      valid_id_left_unchanged [of ids_with_parents_ns rule1_id demo_env pool1_id subnet1_id
        ip1_id nsg1_id]
    by (simp add: f g truthy_def)
qed

subsection \<open>Bare names with their parent context\<close>

lemma bare_names_not_ids:
  "\<not> resource_id_shape (Some ''rule1'')" "\<not> resource_id_shape (Some ''pool1'')"
  "\<not> resource_id_shape (Some ''subnet1'')" "\<not> resource_id_shape (Some ''ip1'')"
  "\<not> resource_id_shape (Some ''nsg1'')"
  by (simp_all add: resource_id_shape_def Let_def)

text \<open>
  Claim C2, as stated, fails on idempotence: a backend address pool name is resolved
  with \<^verbatim>\<open>--lb-name\<close> set, and on the resulting namespace (identifier and
  \<^verbatim>\<open>--lb-name\<close>) \<^verbatim>\<open>validate_address_pool_name_or_id\<close> raises \<^verbatim>\<open>CLIError\<close>.
\<close>

theorem reapplied_pool_validator_raises:
  "validate_address_pool_name_or_id demo_env names_ns =
     Inr (names_ns\<lparr>backend_address_pool := Some pool1_id\<rparr>) \<and>
   validate_address_pool_name_or_id demo_env (names_ns\<lparr>backend_address_pool := Some pool1_id\<rparr>) =
     Inl (CLIError ''Please omit --lb-name when specifying an address pool ID.'',
          names_ns\<lparr>backend_address_pool := Some pool1_id\<rparr>)"
proof -
  have 1: "validate_address_pool_name_or_id demo_env names_ns =
     Inr (names_ns\<lparr>backend_address_pool := Some pool1_id\<rparr>)"
    using bare_names_not_ids(2)
    by (simp add: validate_address_pool_name_or_id_def names_ns_def empty_ns_def demo_env_def
        truthy_def generate_lb_subproperty_id_def resource_id_def py_str_def pool1_id_def)
  have 2: "validate_address_pool_name_or_id demo_env
       (names_ns\<lparr>backend_address_pool := Some pool1_id\<rparr>) =
     Inl (CLIError ''Please omit --lb-name when specifying an address pool ID.'',
          names_ns\<lparr>backend_address_pool := Some pool1_id\<rparr>)"
    using example_ids_shape(2)
    by (simp add: validate_address_pool_name_or_id_def names_ns_def empty_ns_def demo_env_def
        truthy_def)
  from 1 2 show ?thesis by simp
qed

text \<open>
  Claim C2, amended. For a bare name with its parent context, each scalar validator
  sets the attribute to the identifier of the template
  \<^verbatim>\<open>/subscriptions/{sub}/resourceGroups/{rg}/providers/Microsoft.Network/{parentType}/{parentName}/{childType}/{childName}\<close>
  (the top-level form for public IP addresses and network security groups). Applied
  again to its own result, where the identifier it built is recognized as one, the public
  IP and network security group validators return the namespace unchanged; the inbound
  NAT rule, address pool and subnet validators raise, since the parent name is still set,
  and leave the namespace unchanged.
\<close>

theorem bare_name_resolved_by_template:
  assumes rg: "resource_group_name ns = Some rg"
  shows
  "(inbound_nat_rule ns = Some rule \<and> \<not> is_valid_resource_id E (Some rule) \<and>
      load_balancer_name ns = Some lb \<and> lb \<noteq> [] \<longrightarrow>
      (let ns' = ns\<lparr>inbound_nat_rule :=
                      Some (''/subscriptions/'' @ get_subscription_id E @ ''/resourceGroups/'' @ rg @
                            ''/providers/Microsoft.Network/loadBalancers/'' @ lb @
                            ''/inboundNatRules/'' @ rule)\<rparr>
       in validate_inbound_nat_rule_name_or_id E ns = Inr ns' \<and>
          (is_valid_resource_id E (inbound_nat_rule ns') \<longrightarrow>
             validate_inbound_nat_rule_name_or_id E ns' =
               Inl (CLIError ''Please omit --lb-name when specifying an inbound NAT rule ID.'',
                    ns')))) \<and>
   (backend_address_pool ns = Some pool \<and> \<not> is_valid_resource_id E (Some pool) \<and>
      load_balancer_name ns = Some lb \<and> lb \<noteq> [] \<longrightarrow>
      (let ns' = ns\<lparr>backend_address_pool :=
                      Some (''/subscriptions/'' @ get_subscription_id E @ ''/resourceGroups/'' @ rg @
                            ''/providers/Microsoft.Network/loadBalancers/'' @ lb @
                            ''/backendAddressPools/'' @ pool)\<rparr>
       in validate_address_pool_name_or_id E ns = Inr ns' \<and>
          (is_valid_resource_id E (backend_address_pool ns') \<longrightarrow>
             validate_address_pool_name_or_id E ns' =
               Inl (CLIError ''Please omit --lb-name when specifying an address pool ID.'',
                    ns')))) \<and>
   (subnet ns = Some sn \<and> sn \<noteq> [] \<and> \<not> is_valid_resource_id E (Some sn) \<and>
      virtual_network_name ns = Some vnet \<and> vnet \<noteq> [] \<longrightarrow>
      (let ns' = ns\<lparr>subnet :=
                      Some (''/subscriptions/'' @ get_subscription_id E @ ''/resourceGroups/'' @ rg @
                            ''/providers/Microsoft.Network/virtualNetworks/'' @ vnet @
                            ''/subnets/'' @ sn)\<rparr>
       in validate_subnet_name_or_id E ns = Inr ns' \<and>
          (is_valid_resource_id E (subnet ns') \<longrightarrow>
             validate_subnet_name_or_id E ns' =
               Inl (ArgumentError ''Please omit --vnet-name when specifying a subnet ID'', ns')))) \<and>
   (public_ip_address ns = Some ip \<and> ip \<noteq> [] \<and> \<not> is_valid_resource_id E (Some ip) \<longrightarrow>
      (let ns' = ns\<lparr>public_ip_address :=
                      Some (''/subscriptions/'' @ get_subscription_id E @ ''/resourceGroups/'' @ rg @
                            ''/providers/Microsoft.Network/publicIPAddresses/'' @ ip)\<rparr>
       in validate_public_ip_name_or_id E ns = Inr ns' \<and>
          (is_valid_resource_id E (public_ip_address ns') \<longrightarrow>
             validate_public_ip_name_or_id E ns' = Inr ns'))) \<and>
   (network_security_group ns = Some nsg \<and> nsg \<noteq> [] \<and> \<not> is_valid_resource_id E (Some nsg) \<longrightarrow>
      (let ns' = ns\<lparr>network_security_group :=
                      Some (''/subscriptions/'' @ get_subscription_id E @ ''/resourceGroups/'' @ rg @
                            ''/providers/Microsoft.Network/networkSecurityGroups/'' @ nsg)\<rparr>
       in validate_nsg_name_or_id E ns = Inr ns' \<and>
          (is_valid_resource_id E (network_security_group ns') \<longrightarrow>
             validate_nsg_name_or_id E ns' = Inr ns')))"
proof -
  note defs = truthy_def generate_lb_subproperty_id_def resource_id_def py_str_def Let_def
  have c1: "inbound_nat_rule ns = Some rule \<and> \<not> is_valid_resource_id E (Some rule) \<and>
      load_balancer_name ns = Some lb \<and> lb \<noteq> [] \<longrightarrow>
      (let ns' = ns\<lparr>inbound_nat_rule :=
                      Some (''/subscriptions/'' @ get_subscription_id E @ ''/resourceGroups/'' @ rg @
                            ''/providers/Microsoft.Network/loadBalancers/'' @ lb @
                            ''/inboundNatRules/'' @ rule)\<rparr>
       in validate_inbound_nat_rule_name_or_id E ns = Inr ns' \<and>
          (is_valid_resource_id E (inbound_nat_rule ns') \<longrightarrow>
             validate_inbound_nat_rule_name_or_id E ns' =
               Inl (CLIError ''Please omit --lb-name when specifying an inbound NAT rule ID.'',
                    ns')))"
    using rg by (simp add: validate_inbound_nat_rule_name_or_id_def defs)
  have c2: "backend_address_pool ns = Some pool \<and> \<not> is_valid_resource_id E (Some pool) \<and>
      load_balancer_name ns = Some lb \<and> lb \<noteq> [] \<longrightarrow>
      (let ns' = ns\<lparr>backend_address_pool :=
                      Some (''/subscriptions/'' @ get_subscription_id E @ ''/resourceGroups/'' @ rg @
                            ''/providers/Microsoft.Network/loadBalancers/'' @ lb @
                            ''/backendAddressPools/'' @ pool)\<rparr>
       in validate_address_pool_name_or_id E ns = Inr ns' \<and>
          (is_valid_resource_id E (backend_address_pool ns') \<longrightarrow>
             validate_address_pool_name_or_id E ns' =
               Inl (CLIError ''Please omit --lb-name when specifying an address pool ID.'',
                    ns')))"
    using rg by (simp add: validate_address_pool_name_or_id_def defs)
  have c3: "subnet ns = Some sn \<and> sn \<noteq> [] \<and> \<not> is_valid_resource_id E (Some sn) \<and>
      virtual_network_name ns = Some vnet \<and> vnet \<noteq> [] \<longrightarrow>
      (let ns' = ns\<lparr>subnet :=
                      Some (''/subscriptions/'' @ get_subscription_id E @ ''/resourceGroups/'' @ rg @
                            ''/providers/Microsoft.Network/virtualNetworks/'' @ vnet @
                            ''/subnets/'' @ sn)\<rparr>
       in validate_subnet_name_or_id E ns = Inr ns' \<and>
          (is_valid_resource_id E (subnet ns') \<longrightarrow>
             validate_subnet_name_or_id E ns' =
               Inl (ArgumentError ''Please omit --vnet-name when specifying a subnet ID'', ns')))"
    using rg by (simp add: validate_subnet_name_or_id_def defs)
  have c4: "public_ip_address ns = Some ip \<and> ip \<noteq> [] \<and> \<not> is_valid_resource_id E (Some ip) \<longrightarrow>
      (let ns' = ns\<lparr>public_ip_address :=
                      Some (''/subscriptions/'' @ get_subscription_id E @ ''/resourceGroups/'' @ rg @
                            ''/providers/Microsoft.Network/publicIPAddresses/'' @ ip)\<rparr>
       in validate_public_ip_name_or_id E ns = Inr ns' \<and>
          (is_valid_resource_id E (public_ip_address ns') \<longrightarrow>
             validate_public_ip_name_or_id E ns' = Inr ns'))"
    using rg by (simp add: validate_public_ip_name_or_id_def defs)
  have c5: "network_security_group ns = Some nsg \<and> nsg \<noteq> [] \<and> \<not> is_valid_resource_id E (Some nsg) \<longrightarrow>
      (let ns' = ns\<lparr>network_security_group :=
                      Some (''/subscriptions/'' @ get_subscription_id E @ ''/resourceGroups/'' @ rg @
                            ''/providers/Microsoft.Network/networkSecurityGroups/'' @ nsg)\<rparr>
       in validate_nsg_name_or_id E ns = Inr ns' \<and>
          (is_valid_resource_id E (network_security_group ns') \<longrightarrow>
             validate_nsg_name_or_id E ns' = Inr ns'))"
    using rg by (simp add: validate_nsg_name_or_id_def defs)
  from c1 c2 c3 c4 c5 show ?thesis by (intro conjI)
qed

theorem bare_name_resolved_by_template_witness:
  "validate_inbound_nat_rule_name_or_id demo_env names_ns =
     Inr (names_ns\<lparr>inbound_nat_rule := Some rule1_id\<rparr>) \<and>
   validate_inbound_nat_rule_name_or_id demo_env (names_ns\<lparr>inbound_nat_rule := Some rule1_id\<rparr>) =
     Inl (CLIError ''Please omit --lb-name when specifying an inbound NAT rule ID.'',
          names_ns\<lparr>inbound_nat_rule := Some rule1_id\<rparr>) \<and>
   validate_address_pool_name_or_id demo_env names_ns =
     Inr (names_ns\<lparr>backend_address_pool := Some pool1_id\<rparr>) \<and>
   validate_subnet_name_or_id demo_env names_ns = Inr (names_ns\<lparr>subnet := Some subnet1_id\<rparr>) \<and>
   validate_subnet_name_or_id demo_env (names_ns\<lparr>subnet := Some subnet1_id\<rparr>) =
     Inl (ArgumentError ''Please omit --vnet-name when specifying a subnet ID'',
          names_ns\<lparr>subnet := Some subnet1_id\<rparr>) \<and>
   validate_public_ip_name_or_id demo_env names_ns =
     Inr (names_ns\<lparr>public_ip_address := Some ip1_id\<rparr>) \<and>
   validate_public_ip_name_or_id demo_env (names_ns\<lparr>public_ip_address := Some ip1_id\<rparr>) =
     Inr (names_ns\<lparr>public_ip_address := Some ip1_id\<rparr>) \<and>
   validate_nsg_name_or_id demo_env names_ns =
     Inr (names_ns\<lparr>network_security_group := Some nsg1_id\<rparr>) \<and>
   validate_nsg_name_or_id demo_env (names_ns\<lparr>network_security_group := Some nsg1_id\<rparr>) =
     Inr (names_ns\<lparr>network_security_group := Some nsg1_id\<rparr>)"
proof -
  have rg: "resource_group_name names_ns = Some ''rg1''"
    by (simp add: names_ns_def empty_ns_def)
  have f: "inbound_nat_rule names_ns = Some ''rule1''" "backend_address_pool names_ns = Some ''pool1''"
    "subnet names_ns = Some ''subnet1''" "public_ip_address names_ns = Some ''ip1''"
    "network_security_group names_ns = Some ''nsg1''"
    "load_balancer_name names_ns = Some ''lb1''" "virtual_network_name names_ns = Some ''vnet1''"
    by (simp_all add: names_ns_def empty_ns_def)
  have e: "is_valid_resource_id demo_env = resource_id_shape" "get_subscription_id demo_env = ''sub1''"
    by (simp_all add: demo_env_def)
  have i: "''/subscriptions/sub1/resourceGroups/rg1/providers/Microsoft.Network/loadBalancers/lb1/inboundNatRules/rule1'' = rule1_id"
    "''/subscriptions/sub1/resourceGroups/rg1/providers/Microsoft.Network/loadBalancers/lb1/backendAddressPools/pool1'' = pool1_id"
    "''/subscriptions/sub1/resourceGroups/rg1/providers/Microsoft.Network/virtualNetworks/vnet1/subnets/subnet1'' = subnet1_id"
    "''/subscriptions/sub1/resourceGroups/rg1/providers/Microsoft.Network/publicIPAddresses/ip1'' = ip1_id"
    "''/subscriptions/sub1/resourceGroups/rg1/providers/Microsoft.Network/networkSecurityGroups/nsg1'' = nsg1_id"
    by (simp_all add: rule1_id_def pool1_id_def subnet1_id_def ip1_id_def nsg1_id_def)
  show ?thesis
    using bare_name_resolved_by_template [OF rg, where rule = "''rule1''" and E = demo_env
        and lb = "''lb1''" and pool = "''pool1''" and sn = "''subnet1''" and vnet = "''vnet1''"
        and ip = "''ip1''" and nsg = "''nsg1''"]
      bare_names_not_ids example_ids_shape subnet1_id_shape
    by (simp add: f e i Let_def)
qed

subsection \<open>The loop over a list of names or identifiers\<close>

lemma lb_id_loop_resolves:
  "truthy (load_balancer_name ns) \<or> list_all (\<lambda>x. is_valid_resource_id E (Some x)) xs \<Longrightarrow>
   lb_id_loop E ns child_type acc (map Str xs) =
     Inr (acc @ map (\<lambda>x. Dict [(''id'',
            if is_valid_resource_id E (Some x) then x
            else generate_lb_subproperty_id E (resource_group_name ns) (load_balancer_name ns)
                   child_type (Some x) (Some (get_subscription_id E)))]) xs)"
proof (induction xs arbitrary: acc)
  case Nil
  show ?case by simp
next
  case (Cons x xs)
  from Cons.prems
  have rest: "truthy (load_balancer_name ns) \<or> list_all (\<lambda>x. is_valid_resource_id E (Some x)) xs"
    by auto
  show ?case
  proof (cases "is_valid_resource_id E (Some x)")
    case True
    then show ?thesis using Cons.IH [OF rest] by simp
  next
    case False
    with Cons.prems have "truthy (load_balancer_name ns)" by simp
    with False show ?thesis using Cons.IH [OF rest] by simp
  qed
qed

lemma lb_id_loop_raises:
  "\<not> truthy (load_balancer_name ns) \<Longrightarrow>
   find (\<lambda>x. \<not> is_valid_resource_id E (Some x)) xs = Some bad \<Longrightarrow>
   lb_id_loop E ns child_type acc (map Str xs) =
     Inl (CLIError (''Unable to process '' @ bad @
            ''. Please supply a well-formed ID or --lb-name.''))"
  by (induction xs arbitrary: acc) (auto split: if_splits)

lemma str_contains_append: "str_contains sub ys \<Longrightarrow> str_contains sub (xs @ ys)"
  by (induction xs) simp_all

lemma unable_message_names_flag:
  "str_contains ''--lb-name''
     (''Unable to process '' @ bad @ ''. Please supply a well-formed ID or --lb-name.'')"
proof -
  have "str_contains ''--lb-name'' ''. Please supply a well-formed ID or --lb-name.''"
    by simp
  then have "str_contains ''--lb-name''
      (bad @ ''. Please supply a well-formed ID or --lb-name.'')"
    by (rule str_contains_append)
  then show ?thesis
    by (rule str_contains_append)
qed

subsection \<open>Bare names without their parent context\<close>

text \<open>
  Claim C3, as stated, fails for the subnet: a subnet name without
  \<^verbatim>\<open>--vnet-name\<close> makes \<^verbatim>\<open>validate_subnet_name_or_id\<close> raise
  \<^verbatim>\<open>argparse.ArgumentError\<close>, not \<^verbatim>\<open>CLIError\<close>.
\<close>

theorem subnet_name_without_vnet_raises_argument_error:
  "subnet orphans_ns = Some ''subnet1'' \<and>
   \<not> is_valid_resource_id demo_env (subnet orphans_ns) \<and>
   virtual_network_name orphans_ns = None \<and>
   raised (validate_subnet_name_or_id demo_env orphans_ns) =
     Some (ArgumentError ''Please specify --vnet-name when specifying a subnet name'') \<and>
   \<not> is_cli_error (raised (validate_subnet_name_or_id demo_env orphans_ns))"
  using bare_names_not_ids(3)
  by (simp add: validate_subnet_name_or_id_def orphans_ns_def empty_ns_def demo_env_def
      truthy_def raised_def is_cli_error_def)

text \<open>
  Claim C3, amended. A bare name without its parent name makes the validator raise and
  leaves the namespace as it was. The inbound NAT rule and address pool validators, and
  the two list validators at the first bare name they meet, raise \<^verbatim>\<open>CLIError\<close> with
  a message that names \<^verbatim>\<open>--lb-name\<close>; the subnet validator raises
  \<^verbatim>\<open>argparse.ArgumentError\<close> with a message that names \<^verbatim>\<open>--vnet-name\<close>.
\<close>

theorem missing_parent_context_raises:
  "(\<not> is_valid_resource_id E (inbound_nat_rule ns) \<and> \<not> truthy (load_balancer_name ns) \<longrightarrow>
      validate_inbound_nat_rule_name_or_id E ns =
        Inl (CLIError ''Please specify --lb-name when specifying an inbound NAT rule name.'', ns)) \<and>
   (\<not> is_valid_resource_id E (backend_address_pool ns) \<and> \<not> truthy (load_balancer_name ns) \<longrightarrow>
      validate_address_pool_name_or_id E ns =
        Inl (CLIError ''Please specify --lb-name when specifying an address pool name.'', ns)) \<and>
   (subnet ns = Some sn \<and> sn \<noteq> [] \<and> \<not> is_valid_resource_id E (Some sn) \<and>
      \<not> truthy (virtual_network_name ns) \<longrightarrow>
      validate_subnet_name_or_id E ns =
        Inl (ArgumentError ''Please specify --vnet-name when specifying a subnet name'', ns)) \<and>
   (load_balancer_inbound_nat_rule_ids ns = ArgList (map Str rules) \<and>
      find (\<lambda>x. \<not> is_valid_resource_id E (Some x)) rules = Some rule \<and>
      \<not> truthy (load_balancer_name ns) \<longrightarrow>
      validate_inbound_nat_rule_id_list E ns =
        Inl (CLIError (''Unable to process '' @ rule @
               ''. Please supply a well-formed ID or --lb-name.''), ns) \<and>
      str_contains ''--lb-name''
        (''Unable to process '' @ rule @ ''. Please supply a well-formed ID or --lb-name.'')) \<and>
   (load_balancer_backend_address_pool_ids ns = ArgList (map Str pools) \<and>
      find (\<lambda>x. \<not> is_valid_resource_id E (Some x)) pools = Some pool \<and>
      \<not> truthy (load_balancer_name ns) \<longrightarrow>
      validate_address_pool_id_list E ns =
        Inl (CLIError (''Unable to process '' @ pool @
               ''. Please supply a well-formed ID or --lb-name.''), ns) \<and>
      str_contains ''--lb-name''
        (''Unable to process '' @ pool @ ''. Please supply a well-formed ID or --lb-name.''))"
proof -
  have c1: "validate_inbound_nat_rule_name_or_id E ns =
        Inl (CLIError ''Please specify --lb-name when specifying an inbound NAT rule name.'', ns)"
    if "\<not> is_valid_resource_id E (inbound_nat_rule ns)" "\<not> truthy (load_balancer_name ns)"
    using that by (simp add: validate_inbound_nat_rule_name_or_id_def)
  have c2: "validate_address_pool_name_or_id E ns =
        Inl (CLIError ''Please specify --lb-name when specifying an address pool name.'', ns)"
    if "\<not> is_valid_resource_id E (backend_address_pool ns)" "\<not> truthy (load_balancer_name ns)"
    using that by (simp add: validate_address_pool_name_or_id_def)
  have c3: "validate_subnet_name_or_id E ns =
        Inl (ArgumentError ''Please specify --vnet-name when specifying a subnet name'', ns)"
    if "subnet ns = Some sn" "sn \<noteq> []" "\<not> is_valid_resource_id E (Some sn)"
      "\<not> truthy (virtual_network_name ns)"
    using that by (simp add: validate_subnet_name_or_id_def truthy_def)
  have c4: "validate_inbound_nat_rule_id_list E ns =
        Inl (CLIError (''Unable to process '' @ rule @
               ''. Please supply a well-formed ID or --lb-name.''), ns)"
    if "load_balancer_inbound_nat_rule_ids ns = ArgList (map Str rules)"
      "find (\<lambda>x. \<not> is_valid_resource_id E (Some x)) rules = Some rule"
      "\<not> truthy (load_balancer_name ns)"
  proof -
    from that(2) have "rules \<noteq> []" by auto
    then show ?thesis
      using that lb_id_loop_raises [OF that(3) that(2)]
      by (simp add: validate_inbound_nat_rule_id_list_def
          generate_lb_id_list_from_names_or_ids_def getattr_list_def truthy_arg_def)
  qed
  have c5: "validate_address_pool_id_list E ns =
        Inl (CLIError (''Unable to process '' @ pool @
               ''. Please supply a well-formed ID or --lb-name.''), ns)"
    if "load_balancer_backend_address_pool_ids ns = ArgList (map Str pools)"
      "find (\<lambda>x. \<not> is_valid_resource_id E (Some x)) pools = Some pool"
      "\<not> truthy (load_balancer_name ns)"
  proof -
    from that(2) have "pools \<noteq> []" by auto
    then show ?thesis
      using that lb_id_loop_raises [OF that(3) that(2)]
      by (simp add: validate_address_pool_id_list_def
          generate_lb_id_list_from_names_or_ids_def getattr_list_def truthy_arg_def)
  qed
  from c1 c2 c3 c4 c5 unable_message_names_flag show ?thesis by blast
qed

theorem missing_parent_context_raises_witness:
  "validate_inbound_nat_rule_name_or_id demo_env orphans_ns =
     Inl (CLIError ''Please specify --lb-name when specifying an inbound NAT rule name.'',
          orphans_ns) \<and>
   validate_address_pool_name_or_id demo_env orphans_ns =
     Inl (CLIError ''Please specify --lb-name when specifying an address pool name.'',
          orphans_ns) \<and>
   validate_subnet_name_or_id demo_env orphans_ns =
     Inl (ArgumentError ''Please specify --vnet-name when specifying a subnet name'',
          orphans_ns) \<and>
   validate_inbound_nat_rule_id_list demo_env orphans_ns =
     Inl (CLIError ''Unable to process rule2. Please supply a well-formed ID or --lb-name.'',
          orphans_ns) \<and>
   validate_address_pool_id_list demo_env orphans_ns =
     Inl (CLIError ''Unable to process pool2. Please supply a well-formed ID or --lb-name.'',
          orphans_ns)"
proof -
  have f: "inbound_nat_rule orphans_ns = Some ''rule1''"
    "backend_address_pool orphans_ns = Some ''pool1''"
    "subnet orphans_ns = Some ''subnet1''"
    "load_balancer_name orphans_ns = None" "virtual_network_name orphans_ns = None"
    "load_balancer_inbound_nat_rule_ids orphans_ns = ArgList (map Str [rule1_id, ''rule2'', ''rule3''])"
    "load_balancer_backend_address_pool_ids orphans_ns = ArgList (map Str [''pool2''])"
    by (simp_all add: orphans_ns_def empty_ns_def)
  have e: "is_valid_resource_id demo_env = resource_id_shape"
    by (simp add: demo_env_def)
  have n: "\<not> resource_id_shape (Some ''rule2'')" "\<not> resource_id_shape (Some ''pool2'')"
    by (simp_all add: resource_id_shape_def Let_def)
  show ?thesis
    using missing_parent_context_raises [where E = demo_env and ns = orphans_ns
        and sn = "''subnet1''" and rules = "[rule1_id, ''rule2'', ''rule3'']" and rule = "''rule2''"
        and pools = "[''pool2'']" and pool = "''pool2''"]
      bare_names_not_ids example_ids_shape n
    by (simp add: f e truthy_def)
qed

subsection \<open>List-valued resolution\<close>

lemma lb_id_loop_some_bare_name:
  assumes "\<not> truthy (load_balancer_name ns)"
    and "\<not> list_all (\<lambda>x. is_valid_resource_id E (Some x)) xs"
  shows "\<exists>bad\<in>set xs. \<not> is_valid_resource_id E (Some bad) \<and>
           lb_id_loop E ns child_type acc (map Str xs) =
             Inl (CLIError (''Unable to process '' @ bad @
                    ''. Please supply a well-formed ID or --lb-name.''))"
proof -
  from assms(2) obtain bad where
    bad: "find (\<lambda>x. \<not> is_valid_resource_id E (Some x)) xs = Some bad"
    by (cases "find (\<lambda>x. \<not> is_valid_resource_id E (Some x)) xs")
      (auto simp: find_None_iff list_all_iff)
  then have "bad \<in> set xs" "\<not> is_valid_resource_id E (Some bad)"
    by (auto simp: find_Some_iff)
  with lb_id_loop_raises [OF assms(1) bad] show ?thesis
    by blast
qed

lemma generate_lb_id_list_on_strings:
  assumes "getattr_list ns prop = Some (ArgList (map Str xs))"
  shows "if truthy (load_balancer_name ns) \<or> list_all (\<lambda>x. is_valid_resource_id E (Some x)) xs
         then generate_lb_id_list_from_names_or_ids E ns prop child_type =
                (if xs = [] then Inr ns
                 else Inr (setattr_list ns prop
                        (ArgList (map (\<lambda>x. Dict [(''id'',
                           if is_valid_resource_id E (Some x) then x
                           else generate_lb_subproperty_id E (resource_group_name ns)
                                  (load_balancer_name ns) child_type (Some x)
                                  (Some (get_subscription_id E)))]) xs))))
         else (\<exists>bad\<in>set xs. \<not> is_valid_resource_id E (Some bad) \<and>
                 generate_lb_id_list_from_names_or_ids E ns prop child_type =
                   Inl (CLIError (''Unable to process '' @ bad @
                          ''. Please supply a well-formed ID or --lb-name.''), ns))"
proof (cases "truthy (load_balancer_name ns) \<or> list_all (\<lambda>x. is_valid_resource_id E (Some x)) xs")
  case True
  then show ?thesis
    using assms lb_id_loop_resolves [OF True, of child_type "[]"]
    by (simp add: generate_lb_id_list_from_names_or_ids_def truthy_arg_def)
next
  case False
  then have lb: "\<not> truthy (load_balancer_name ns)"
    and bare: "\<not> list_all (\<lambda>x. is_valid_resource_id E (Some x)) xs"
    by simp_all
  from bare have "xs \<noteq> []" by auto
  with lb_id_loop_some_bare_name [OF lb bare, of child_type "[]"] False assms
  show ?thesis
    by (auto simp add: generate_lb_id_list_from_names_or_ids_def truthy_arg_def)
qed

text \<open>
  Claim C4. On a list of strings, each list validator stores the list of the
  \<^verbatim>\<open>{'id': ...}\<close> dictionaries of the entries, in the order of the input, an
  identifier as it stands and a name resolved under the load balancer, each entry on its
  own; when some entry is a bare name and no load-balancer name is set, it raises
  \<^verbatim>\<open>CLIError\<close> and the namespace is as it was. On an empty or absent attribute it
  returns the namespace as it was.
\<close>

theorem id_list_resolution:
  "(load_balancer_inbound_nat_rule_ids ns = ArgList (map Str rules) \<longrightarrow>
      (if truthy (load_balancer_name ns) \<or>
          list_all (\<lambda>x. is_valid_resource_id E (Some x)) rules
       then validate_inbound_nat_rule_id_list E ns =
              Inr (ns\<lparr>load_balancer_inbound_nat_rule_ids :=
                     ArgList (map (\<lambda>x. Dict [(''id'',
                        if is_valid_resource_id E (Some x) then x
                        else generate_lb_subproperty_id E (resource_group_name ns)
                               (load_balancer_name ns) ''inboundNatRules'' (Some x)
                               (Some (get_subscription_id E)))]) rules)\<rparr>)
       else (\<exists>bad\<in>set rules. \<not> is_valid_resource_id E (Some bad) \<and>
               validate_inbound_nat_rule_id_list E ns =
                 Inl (CLIError (''Unable to process '' @ bad @
                        ''. Please supply a well-formed ID or --lb-name.''), ns)))) \<and>
   (\<not> truthy_arg (load_balancer_inbound_nat_rule_ids ns) \<longrightarrow>
      validate_inbound_nat_rule_id_list E ns = Inr ns) \<and>
   (load_balancer_backend_address_pool_ids ns = ArgList (map Str pools) \<longrightarrow>
      (if truthy (load_balancer_name ns) \<or>
          list_all (\<lambda>x. is_valid_resource_id E (Some x)) pools
       then validate_address_pool_id_list E ns =
              Inr (ns\<lparr>load_balancer_backend_address_pool_ids :=
                     ArgList (map (\<lambda>x. Dict [(''id'',
                        if is_valid_resource_id E (Some x) then x
                        else generate_lb_subproperty_id E (resource_group_name ns)
                               (load_balancer_name ns) ''backendAddressPools'' (Some x)
                               (Some (get_subscription_id E)))]) pools)\<rparr>)
       else (\<exists>bad\<in>set pools. \<not> is_valid_resource_id E (Some bad) \<and>
               validate_address_pool_id_list E ns =
                 Inl (CLIError (''Unable to process '' @ bad @
                        ''. Please supply a well-formed ID or --lb-name.''), ns)))) \<and>
   (\<not> truthy_arg (load_balancer_backend_address_pool_ids ns) \<longrightarrow>
      validate_address_pool_id_list E ns = Inr ns)"
proof -
  have g1: "getattr_list ns ''load_balancer_inbound_nat_rule_ids'' =
      Some (load_balancer_inbound_nat_rule_ids ns)"
    and g2: "getattr_list ns ''load_balancer_backend_address_pool_ids'' =
      Some (load_balancer_backend_address_pool_ids ns)"
    by (simp_all add: getattr_list_def)
  have s1: "setattr_list ns ''load_balancer_inbound_nat_rule_ids'' v =
      ns\<lparr>load_balancer_inbound_nat_rule_ids := v\<rparr>"
    and s2: "setattr_list ns ''load_balancer_backend_address_pool_ids'' v =
      ns\<lparr>load_balancer_backend_address_pool_ids := v\<rparr>" for v
    by (simp_all add: setattr_list_def)
  have c1: "if truthy (load_balancer_name ns) \<or>
          list_all (\<lambda>x. is_valid_resource_id E (Some x)) rules
       then validate_inbound_nat_rule_id_list E ns =
              Inr (ns\<lparr>load_balancer_inbound_nat_rule_ids :=
                     ArgList (map (\<lambda>x. Dict [(''id'',
                        if is_valid_resource_id E (Some x) then x
                        else generate_lb_subproperty_id E (resource_group_name ns)
                               (load_balancer_name ns) ''inboundNatRules'' (Some x)
                               (Some (get_subscription_id E)))]) rules)\<rparr>)
       else (\<exists>bad\<in>set rules. \<not> is_valid_resource_id E (Some bad) \<and>
               validate_inbound_nat_rule_id_list E ns =
                 Inl (CLIError (''Unable to process '' @ bad @
                        ''. Please supply a well-formed ID or --lb-name.''), ns))"
    if a: "load_balancer_inbound_nat_rule_ids ns = ArgList (map Str rules)"
  proof -
    have "getattr_list ns ''load_balancer_inbound_nat_rule_ids'' = Some (ArgList (map Str rules))"
      using a g1 by simp
    from generate_lb_id_list_on_strings [OF this, of E "''inboundNatRules''"]
    show ?thesis
      unfolding validate_inbound_nat_rule_id_list_def s1
      using a by (cases "rules = []") (simp_all split: if_splits)
  qed
  have c2: "validate_inbound_nat_rule_id_list E ns = Inr ns"
    if "\<not> truthy_arg (load_balancer_inbound_nat_rule_ids ns)"
    using that g1
    by (simp add: validate_inbound_nat_rule_id_list_def generate_lb_id_list_from_names_or_ids_def)
  have c3: "if truthy (load_balancer_name ns) \<or>
          list_all (\<lambda>x. is_valid_resource_id E (Some x)) pools
       then validate_address_pool_id_list E ns =
              Inr (ns\<lparr>load_balancer_backend_address_pool_ids :=
                     ArgList (map (\<lambda>x. Dict [(''id'',
                        if is_valid_resource_id E (Some x) then x
                        else generate_lb_subproperty_id E (resource_group_name ns)
                               (load_balancer_name ns) ''backendAddressPools'' (Some x)
                               (Some (get_subscription_id E)))]) pools)\<rparr>)
       else (\<exists>bad\<in>set pools. \<not> is_valid_resource_id E (Some bad) \<and>
               validate_address_pool_id_list E ns =
                 Inl (CLIError (''Unable to process '' @ bad @
                        ''. Please supply a well-formed ID or --lb-name.''), ns))"
    if a: "load_balancer_backend_address_pool_ids ns = ArgList (map Str pools)"
  proof -
    have "getattr_list ns ''load_balancer_backend_address_pool_ids'' =
        Some (ArgList (map Str pools))"
      using a g2 by simp
    from generate_lb_id_list_on_strings [OF this, of E "''backendAddressPools''"]
    show ?thesis
      unfolding validate_address_pool_id_list_def s2
      using a by (cases "pools = []") (simp_all split: if_splits)
  qed
  have c4: "validate_address_pool_id_list E ns = Inr ns"
    if "\<not> truthy_arg (load_balancer_backend_address_pool_ids ns)"
    using that g2
    by (simp add: validate_address_pool_id_list_def generate_lb_id_list_from_names_or_ids_def)
  from c1 c2 c3 c4 show ?thesis by blast
qed

theorem id_list_resolution_witness:
  "validate_inbound_nat_rule_id_list demo_env lists_ns =
     Inr (lists_ns\<lparr>load_balancer_inbound_nat_rule_ids :=
            ArgList [Dict [(''id'', rule1_id)],
                     Dict [(''id'', ''/subscriptions/sub1/resourceGroups/rg1/providers/Microsoft.Network/loadBalancers/lb1/inboundNatRules/rule2'')],
                     Dict [(''id'', ''/subscriptions/sub1/resourceGroups/rg1/providers/Microsoft.Network/loadBalancers/lb1/inboundNatRules/rule3'')]]\<rparr>) \<and>
   validate_address_pool_id_list demo_env lists_ns =
     Inr (lists_ns\<lparr>load_balancer_backend_address_pool_ids :=
            ArgList [Dict [(''id'', ''/subscriptions/sub1/resourceGroups/rg1/providers/Microsoft.Network/loadBalancers/lb1/backendAddressPools/pool2'')]]\<rparr>) \<and>
   raised (validate_inbound_nat_rule_id_list demo_env orphans_ns) \<noteq> None \<and>
   final_ns (validate_inbound_nat_rule_id_list demo_env orphans_ns) = orphans_ns \<and>
   validate_inbound_nat_rule_id_list demo_env empty_ns = Inr empty_ns \<and>
   validate_address_pool_id_list demo_env empty_ns = Inr empty_ns"
proof -
  have f: "load_balancer_inbound_nat_rule_ids lists_ns = ArgList (map Str [rule1_id, ''rule2'', ''rule3''])"
    "load_balancer_backend_address_pool_ids lists_ns = ArgList (map Str [''pool2''])"
    "load_balancer_name lists_ns = Some ''lb1''" "resource_group_name lists_ns = Some ''rg1''"
    "load_balancer_inbound_nat_rule_ids orphans_ns = ArgList (map Str [rule1_id, ''rule2'', ''rule3''])"
    "load_balancer_name orphans_ns = None"
    "load_balancer_inbound_nat_rule_ids empty_ns = ArgNone"
    "load_balancer_backend_address_pool_ids empty_ns = ArgNone"
    by (simp_all add: lists_ns_def orphans_ns_def empty_ns_def)
  have e: "is_valid_resource_id demo_env = resource_id_shape" "get_subscription_id demo_env = ''sub1''"
    by (simp_all add: demo_env_def)
  have n: "\<not> resource_id_shape (Some ''rule2'')" "\<not> resource_id_shape (Some ''rule3'')"
    "\<not> resource_id_shape (Some ''pool2'')"
    by (simp_all add: resource_id_shape_def Let_def)
  have ok: "validate_inbound_nat_rule_id_list demo_env lists_ns =
     Inr (lists_ns\<lparr>load_balancer_inbound_nat_rule_ids :=
            ArgList [Dict [(''id'', rule1_id)],
                     Dict [(''id'', ''/subscriptions/sub1/resourceGroups/rg1/providers/Microsoft.Network/loadBalancers/lb1/inboundNatRules/rule2'')],
                     Dict [(''id'', ''/subscriptions/sub1/resourceGroups/rg1/providers/Microsoft.Network/loadBalancers/lb1/inboundNatRules/rule3'')]]\<rparr>)"
    "validate_address_pool_id_list demo_env lists_ns =
     Inr (lists_ns\<lparr>load_balancer_backend_address_pool_ids :=
            ArgList [Dict [(''id'', ''/subscriptions/sub1/resourceGroups/rg1/providers/Microsoft.Network/loadBalancers/lb1/backendAddressPools/pool2'')]]\<rparr>)"
    using id_list_resolution [where E = demo_env and ns = lists_ns
        and rules = "[rule1_id, ''rule2'', ''rule3'']" and pools = "[''pool2'']"]
      example_ids_shape n
    by (simp_all add: f e truthy_def generate_lb_subproperty_id_def resource_id_def py_str_def)
  have bad: "raised (validate_inbound_nat_rule_id_list demo_env orphans_ns) \<noteq> None"
    "final_ns (validate_inbound_nat_rule_id_list demo_env orphans_ns) = orphans_ns"
    using id_list_resolution [where E = demo_env and ns = orphans_ns
        and rules = "[rule1_id, ''rule2'', ''rule3'']" and pools = "[]"]
      example_ids_shape n
    by (auto simp add: f e truthy_def raised_def final_ns_def)
  have absent: "validate_inbound_nat_rule_id_list demo_env empty_ns = Inr empty_ns"
    "validate_address_pool_id_list demo_env empty_ns = Inr empty_ns"
    using id_list_resolution [where E = demo_env and ns = empty_ns and rules = "[]" and pools = "[]"]
    by (simp_all add: f truthy_arg_def)
  from ok bad absent show ?thesis by simp
qed

subsection \<open>The marker of explicitly given address prefixes\<close>

lemma str_replace_scan_absent:
  "old \<noteq> [] \<Longrightarrow> \<not> str_contains old s \<Longrightarrow> str_replace_scan old new s = s"
  by (induction s) simp_all

lemma str_replace_scan_at_front:
  "old \<noteq> [] \<Longrightarrow> str_replace_scan old new (old @ s) = new @ str_replace_scan old new s"
  by (cases old) simp_all

lemma strip_unmarked:
  "\<not> str_contains SPECIFIED_SENTINEL v \<Longrightarrow> str_replace v SPECIFIED_SENTINEL [] = v"
  by (simp add: str_replace_def str_replace_scan_absent SPECIFIED_SENTINEL_def)

lemma strip_marked:
  "\<not> str_contains SPECIFIED_SENTINEL v \<Longrightarrow>
   str_replace (markSpecifiedAction v) SPECIFIED_SENTINEL [] = v"
proof -
  assume v: "\<not> str_contains SPECIFIED_SENTINEL v"
  have ne: "SPECIFIED_SENTINEL \<noteq> []" by (simp add: SPECIFIED_SENTINEL_def)
  have "markSpecifiedAction v = SPECIFIED_SENTINEL @ v"
    by (simp add: markSpecifiedAction_def SPECIFIED_SENTINEL_def)
  then have "str_replace (markSpecifiedAction v) SPECIFIED_SENTINEL [] =
      str_replace_scan SPECIFIED_SENTINEL [] v"
    using ne str_replace_scan_at_front [OF ne, of "[]" v] by (simp add: str_replace_def)
  with v ne show ?thesis by (simp add: str_replace_scan_absent)
qed

text \<open>
  Claim C8, as stated, fails on the absence of the marker: when the value the user gave
  is \<^verbatim>\<open>__SE__SET__T__\<close>, deleting the occurrences of the marker leaves
  \<^verbatim>\<open>__SET__\<close> in \<^verbatim>\<open>subnet_address_prefix\<close>.
\<close>

theorem marker_left_after_stripping:
  "validate_address_prefixes overlapping_prefix_ns =
     Inr (overlapping_prefix_ns\<lparr>subnet_address_prefix := ''__SET__''\<rparr>) \<and>
   str_contains SPECIFIED_SENTINEL
     (subnet_address_prefix (final_ns (validate_address_prefixes overlapping_prefix_ns)))"
  by (simp add: validate_address_prefixes_def overlapping_prefix_ns_def empty_ns_def
      markSpecifiedAction_def SPECIFIED_SENTINEL_def str_replace_def final_ns_def Let_def)

text \<open>
  Claim C8, amended. \<^verbatim>\<open>validate_address_prefixes\<close> raises exactly when the subnet
  is not new and one of the two prefixes carried the marker. Whether it returns or
  raises, each prefix is left as its value with the occurrences of the marker deleted in
  one pass; when the attribute held a value free of the marker, as it stands (a default)
  or behind the marker (as \<^verbatim>\<open>markSpecifiedAction\<close> stores it), it ends up holding that
  value, and the marker is absent from it.
\<close>

theorem marker_stripped_from_prefixes:
  "(raised (validate_address_prefixes ns) \<noteq> None \<longleftrightarrow>
      subnet_type ns \<noteq> Some ''new'' \<and>
      (str_contains SPECIFIED_SENTINEL (subnet_address_prefix ns) \<or>
       str_contains SPECIFIED_SENTINEL (vnet_address_prefix ns))) \<and>
   subnet_address_prefix (final_ns (validate_address_prefixes ns)) =
     str_replace (subnet_address_prefix ns) SPECIFIED_SENTINEL [] \<and>
   vnet_address_prefix (final_ns (validate_address_prefixes ns)) =
     str_replace (vnet_address_prefix ns) SPECIFIED_SENTINEL [] \<and>
   (\<not> str_contains SPECIFIED_SENTINEL sp \<and>
      (subnet_address_prefix ns = sp \<or> subnet_address_prefix ns = markSpecifiedAction sp) \<longrightarrow>
      subnet_address_prefix (final_ns (validate_address_prefixes ns)) = sp \<and>
      \<not> str_contains SPECIFIED_SENTINEL
          (subnet_address_prefix (final_ns (validate_address_prefixes ns)))) \<and>
   (\<not> str_contains SPECIFIED_SENTINEL vp \<and>
      (vnet_address_prefix ns = vp \<or> vnet_address_prefix ns = markSpecifiedAction vp) \<longrightarrow>
      vnet_address_prefix (final_ns (validate_address_prefixes ns)) = vp \<and>
      \<not> str_contains SPECIFIED_SENTINEL
          (vnet_address_prefix (final_ns (validate_address_prefixes ns))))"
proof -
  have r: "raised (validate_address_prefixes ns) \<noteq> None \<longleftrightarrow>
      subnet_type ns \<noteq> Some ''new'' \<and>
      (str_contains SPECIFIED_SENTINEL (subnet_address_prefix ns) \<or>
       str_contains SPECIFIED_SENTINEL (vnet_address_prefix ns))"
    by (simp add: validate_address_prefixes_def raised_def Let_def)
  have s: "subnet_address_prefix (final_ns (validate_address_prefixes ns)) =
     str_replace (subnet_address_prefix ns) SPECIFIED_SENTINEL []"
    by (simp add: validate_address_prefixes_def final_ns_def Let_def)
  have v: "vnet_address_prefix (final_ns (validate_address_prefixes ns)) =
     str_replace (vnet_address_prefix ns) SPECIFIED_SENTINEL []"
    by (simp add: validate_address_prefixes_def final_ns_def Let_def)
  have s': "subnet_address_prefix (final_ns (validate_address_prefixes ns)) = sp"
    if "\<not> str_contains SPECIFIED_SENTINEL sp"
      "subnet_address_prefix ns = sp \<or> subnet_address_prefix ns = markSpecifiedAction sp"
    using that s strip_unmarked [of sp] strip_marked [of sp] by auto
  have v': "vnet_address_prefix (final_ns (validate_address_prefixes ns)) = vp"
    if "\<not> str_contains SPECIFIED_SENTINEL vp"
      "vnet_address_prefix ns = vp \<or> vnet_address_prefix ns = markSpecifiedAction vp"
    using that v strip_unmarked [of vp] strip_marked [of vp] by auto
  from r s v s' v' show ?thesis by (intro conjI impI) simp_all
qed

theorem marker_stripped_from_prefixes_witness:
  "\<not> str_contains SPECIFIED_SENTINEL ''10.0.1.0/24'' \<and>
   \<not> str_contains SPECIFIED_SENTINEL ''10.0.0.0/16'' \<and>
   raised (validate_address_prefixes new_subnet_ns) = None \<and>
   subnet_address_prefix (final_ns (validate_address_prefixes new_subnet_ns)) = ''10.0.1.0/24'' \<and>
   vnet_address_prefix (final_ns (validate_address_prefixes new_subnet_ns)) = ''10.0.0.0/16'' \<and>
   raised (validate_address_prefixes existing_subnet_ns) \<noteq> None \<and>
   subnet_address_prefix (final_ns (validate_address_prefixes existing_subnet_ns)) =
     ''10.0.1.0/24'' \<and>
   vnet_address_prefix (final_ns (validate_address_prefixes existing_subnet_ns)) =
     ''10.0.0.0/16''"
proof -
  have a: "\<not> str_contains SPECIFIED_SENTINEL ''10.0.1.0/24''"
    "\<not> str_contains SPECIFIED_SENTINEL ''10.0.0.0/16''"
    by (simp_all add: SPECIFIED_SENTINEL_def)
  have m: "str_contains SPECIFIED_SENTINEL (markSpecifiedAction ''10.0.1.0/24'')"
    by (simp add: SPECIFIED_SENTINEL_def markSpecifiedAction_def)
  have f: "subnet_address_prefix new_subnet_ns = markSpecifiedAction ''10.0.1.0/24''"
    "vnet_address_prefix new_subnet_ns = ''10.0.0.0/16''"
    "subnet_type new_subnet_ns = Some ''new''"
    "subnet_address_prefix existing_subnet_ns = markSpecifiedAction ''10.0.1.0/24''"
    "vnet_address_prefix existing_subnet_ns = ''10.0.0.0/16''"
    "subnet_type existing_subnet_ns = Some ''existing''"
    by (simp_all add: new_subnet_ns_def existing_subnet_ns_def empty_ns_def)
  have t: "Some ''existing'' \<noteq> Some ''new''" by simp
  from a m t
    marker_stripped_from_prefixes [of new_subnet_ns "''10.0.1.0/24''" "''10.0.0.0/16''",
      unfolded f]
    marker_stripped_from_prefixes [of existing_subnet_ns "''10.0.1.0/24''" "''10.0.0.0/16''",
      unfolded f]
  show ?thesis
    by blast
qed

subsection \<open>The certificate\<close>

lemma b64encode_rfc4648_vectors:
  "b64encode [] = []" "b64encode ''f'' = ''Zg==''" "b64encode ''fo'' = ''Zm8=''"
  "b64encode ''foo'' = ''Zm9v''" "b64encode ''foob'' = ''Zm9vYg==''"
  "b64encode ''fooba'' = ''Zm9vYmE=''" "b64encode ''foobar'' = ''Zm9vYmFy''"
  by (simp_all add: b64_char_def b64_table_def)

lemma b64_char_ascii: "(of_char (b64_char n) :: nat) < 128"
proof -
  have "\<forall>c\<in>set b64_table. (of_char c :: nat) < 128"
    by (simp add: b64_table_def)
  moreover have "n mod 64 < length b64_table"
    by (simp add: b64_table_def)
  then have "b64_table ! (n mod 64) \<in> set b64_table"
    by (rule nth_mem)
  ultimately show ?thesis
    by (simp add: b64_char_def)
qed

lemma b64encode_ascii: "list_all (\<lambda>c. (of_char c :: nat) < 128) (b64encode bs)"
  by (induction bs rule: b64encode.induct) (simp_all add: b64_char_ascii)

lemma utf8_valid_ascii: "list_all (\<lambda>c. (of_char c :: nat) < 128) bs \<Longrightarrow> utf8_valid bs"
  by (induction bs) simp_all

lemma decode_b64encode: "decode_utf8 (b64encode bs) = Some (b64encode bs)"
  by (simp add: decode_utf8_def utf8_valid_ascii b64encode_ascii)

text \<open>
  Claim C10. The bytes \<^verbatim>\<open>base64.b64encode\<close> returns are ASCII for every input, so
  decoding them as UTF-8 never raises: the \<^verbatim>\<open>except UnicodeDecodeError\<close> branch of
  \<^verbatim>\<open>validate_cert\<close> is not taken, and whenever \<^verbatim>\<open>validate_cert\<close> returns with a
  certificate given, \<^verbatim>\<open>cert_data\<close> holds the base64 text of the file.
\<close>

theorem base64_text_always_decodes:
  "list_all (\<lambda>c. (of_char c :: nat) < 128) (b64encode contents) \<and>
   decode_utf8 (b64encode contents) \<noteq> None \<and>
   cert_text contents = b64encode contents \<and>
   (truthy (cert_data ns) \<and> validate_cert E ns = Inr ns' \<longrightarrow>
      (\<exists>file. read_file E (py_str (cert_data ns)) = Some file \<and>
              cert_data ns' = Some (b64encode file)))"
proof -
  have t: "cert_text bs = b64encode bs" for bs
    by (simp add: cert_text_def decode_b64encode)
  have s: "\<exists>file. read_file E (py_str (cert_data ns)) = Some file \<and>
              cert_data ns' = Some (b64encode file)"
    if "truthy (cert_data ns)" "validate_cert E ns = Inr ns'"
    using that
    by (auto simp add: validate_cert_def t Let_def split: if_splits option.splits)
  from b64encode_ascii [of contents] decode_b64encode [of contents] t [of contents] s
  show ?thesis by simp
qed

theorem base64_text_always_decodes_witness:
  "truthy (cert_data cert_ns) \<and>
   read_file demo_env (py_str (cert_data cert_ns)) = Some ''Man'' \<and>
   b64encode ''Man'' = ''TWFu'' \<and>
   decode_utf8 (b64encode ''Man'') \<noteq> None \<and>
   cert_text ''Man'' = ''TWFu'' \<and>
   cert_data (final_ns (validate_cert demo_env cert_ns)) = Some ''TWFu''"
proof -
  have b: "b64encode ''Man'' = ''TWFu''"
    by (simp add: b64_char_def b64_table_def)
  have f: "truthy (cert_data cert_ns)" "read_file demo_env (py_str (cert_data cert_ns)) = Some ''Man''"
    by (simp_all add: cert_ns_def empty_ns_def demo_env_def truthy_def py_str_def)
  obtain ns' where r: "validate_cert demo_env cert_ns = Inr ns'"
    using f
    by (simp add: validate_cert_def cert_ns_def empty_ns_def demo_env_def truthy_def
        truthy_int_def py_str_def Let_def)
  from base64_text_always_decodes [of "''Man''" cert_ns demo_env ns'] f r b
  show ?thesis
    by (simp add: final_ns_def)
qed

text \<open>
  Claim C5. \<^verbatim>\<open>validate_cert\<close>: with neither \<^verbatim>\<open>cert_data\<close> nor
  \<^verbatim>\<open>cert_password\<close> set, the protocol becomes \<^verbatim>\<open>'http'\<close> and the port becomes 80
  unless it was set; with exactly one of the two set, \<^verbatim>\<open>argparse.ArgumentError\<close> is
  raised; with both set and the file readable, the protocol becomes \<^verbatim>\<open>'https'\<close>, the
  port becomes 443 unless it was set, and \<^verbatim>\<open>cert_data\<close> holds the base64 encoding of
  the bytes of the file. Set means true in a Python condition.
\<close>

theorem validate_cert_cases:
  "(\<not> truthy (cert_data ns) \<and> \<not> truthy (cert_password ns) \<longrightarrow>
      validate_cert E ns =
        Inr (ns\<lparr>http_listener_protocol := Some ''http'',
                 frontend_port := (if truthy_int (frontend_port ns) then frontend_port ns
                                   else Some 80)\<rparr>)) \<and>
   (truthy (cert_data ns) \<and> \<not> truthy (cert_password ns) \<or>
    \<not> truthy (cert_data ns) \<and> truthy (cert_password ns) \<longrightarrow>
      validate_cert E ns =
        Inl (ArgumentError
               ''To use SSL certificate, you must specify both the filename and password'', ns)) \<and>
   (cert_data ns = Some path \<and> path \<noteq> [] \<and> truthy (cert_password ns) \<and>
    read_file E path = Some contents \<longrightarrow>
      validate_cert E ns =
        Inr (ns\<lparr>cert_data := Some (b64encode contents),
                 http_listener_protocol := Some ''https'',
                 frontend_port := (if truthy_int (frontend_port ns) then frontend_port ns
                                   else Some 443)\<rparr>))"
proof -
  have t: "cert_text bs = b64encode bs" for bs
    by (simp add: cert_text_def decode_b64encode)
  have c1: "validate_cert E ns =
        Inr (ns\<lparr>http_listener_protocol := Some ''http'',
                 frontend_port := (if truthy_int (frontend_port ns) then frontend_port ns
                                   else Some 80)\<rparr>)"
    if "\<not> truthy (cert_data ns)" "\<not> truthy (cert_password ns)"
    using that by (simp add: validate_cert_def Let_def)
  have c2: "validate_cert E ns =
        Inl (ArgumentError
               ''To use SSL certificate, you must specify both the filename and password'', ns)"
    if "truthy (cert_data ns) \<and> \<not> truthy (cert_password ns) \<or>
        \<not> truthy (cert_data ns) \<and> truthy (cert_password ns)"
    using that by (auto simp add: validate_cert_def Let_def)
  have c3: "validate_cert E ns =
        Inr (ns\<lparr>cert_data := Some (b64encode contents),
                 http_listener_protocol := Some ''https'',
                 frontend_port := (if truthy_int (frontend_port ns) then frontend_port ns
                                   else Some 443)\<rparr>)"
    if "cert_data ns = Some path" "path \<noteq> []" "truthy (cert_password ns)"
      "read_file E path = Some contents"
    using that by (simp add: validate_cert_def t truthy_def py_str_def Let_def)
  from c1 c2 c3 show ?thesis by blast
qed

theorem validate_cert_cases_witness:
  "validate_cert demo_env empty_ns =
     Inr (empty_ns\<lparr>http_listener_protocol := Some ''http'', frontend_port := Some 80\<rparr>) \<and>
   validate_cert demo_env port_ns = Inr (port_ns\<lparr>http_listener_protocol := Some ''http''\<rparr>) \<and>
   validate_cert demo_env password_only_ns =
     Inl (ArgumentError
            ''To use SSL certificate, you must specify both the filename and password'',
          password_only_ns) \<and>
   validate_cert demo_env cert_ns =
     Inr (cert_ns\<lparr>cert_data := Some ''TWFu'', http_listener_protocol := Some ''https'',
                   frontend_port := Some 443\<rparr>)"
proof -
  have b: "b64encode ''Man'' = ''TWFu''"
    by (simp add: b64_char_def b64_table_def)
  have f: "cert_data empty_ns = None" "cert_password empty_ns = None" "frontend_port empty_ns = None"
    "cert_data port_ns = None" "cert_password port_ns = None" "frontend_port port_ns = Some 8080"
    "cert_data password_only_ns = None" "cert_password password_only_ns = Some ''secret''"
    "cert_data cert_ns = Some ''cert.pfx''" "cert_password cert_ns = Some ''secret''"
    "frontend_port cert_ns = None"
    "read_file demo_env ''cert.pfx'' = Some ''Man''"
    by (simp_all add: empty_ns_def port_ns_def password_only_ns_def cert_ns_def demo_env_def)
  have p: "port_ns\<lparr>http_listener_protocol := Some ''http'', frontend_port := Some 8080\<rparr> =
      port_ns\<lparr>http_listener_protocol := Some ''http''\<rparr>"
    by (simp add: port_ns_def)
  show ?thesis
    using validate_cert_cases [of empty_ns demo_env "[]" "[]"]
      validate_cert_cases [of port_ns demo_env "[]" "[]"]
      validate_cert_cases [of password_only_ns demo_env "[]" "[]"]
      validate_cert_cases [of cert_ns demo_env "''cert.pfx''" "''Man''"]
    by (simp add: f b p truthy_def truthy_int_def b64_char_def b64_table_def)
qed

subsection \<open>Backend servers\<close>

lemmas inet_aton_defs = inet_aton_accepts_def strtoul_def is_digit_def is_octal_def
  is_xdigit_def is_space_def digit_value_def number_value_def

text \<open>The model of \<^verbatim>\<open>inet_aton\<close> on strings the C library accepts and on strings it
  rejects.\<close>

lemma inet_aton_vectors:
  "list_all inet_aton_accepts
     [''10.0.0.5'', ''255.255.255.255'', ''0'', ''10.1'', ''127.1'', ''1.2.3'', ''999'',
      ''4294967295'', ''1.16777215'', ''1.2.65535'', ''0x7f.0.0.1'', ''0X1F'', ''0xffffffff'',
      ''010.1.1.1'', ''0377.1.1.1'', ''00'', ''037777777777'', ''1.0x10.3'', ''1.2.3.04'',
      ''1.2.3.4 x'', ''1 .2'', [CHR ''1'', CHR 0x09], [CHR ''1'', CHR 0x0A]]"
  "list_all (\<lambda>s. \<not> inet_aton_accepts s)
     [''db.example.com'', '''', ''09.1.1.1'', ''08'', ''1.'', ''.1'', ''1..2'', ''1.2.3.4.'',
      ''1.2.3.4.5'', ''256.1.1.1'', ''0400.1.1.1'', ''1.2.3.256'', ''1.2.65536'',
      ''1.16777216'', ''4294967296'', ''99999999999999999999999'', ''0x100000000'',
      ''040000000000'', ''0x'', ''0x.1'', ''0xg'', ''0x1fg'', ''1.2.3.08'', ''1.2.3.0x'',
      ''1.2.3.4x'', '' 1.2.3.4'', ''+1'']"
  by (simp_all add: inet_aton_defs)










end
